theory Spec2Isabelle
  imports Main
begin

section \<open>Request builders of the Tail-f/NSO extension (ncclient/operations/third_party/tailf/rpc.py)\<close>

subsection \<open>Markup trees\<close>

text \<open>
  The builders assemble lxml element trees through the helpers of \<open>ncclient.xml_\<close>.
  An element carries a tag (a namespace and a local name, lxml's \<open>{ns}name\<close>), an
  optional text and its children in document order.

  The Tail-f namespace constants \<open>TAILF_NS\<close>, \<open>TAILF_NS_NCS\<close>, \<open>TAILF_NS_ROLLBACK\<close>,
  \<open>TAILF_NS_WTI\<close> and \<open>TAILF_NS_INACTIVE\<close> are imported from \<open>ncclient.xml_\<close>; their
  URI values are not part of rpc.py, so they are kept symbolic. Every other namespace is
  given by its URI.
\<close>

datatype namespace =
    Uri string
  | TAILF_NS
  | TAILF_NS_NCS
  | TAILF_NS_ROLLBACK
  | TAILF_NS_WTI
  | TAILF_NS_INACTIVE

definition BASE_NS_1_0 :: namespace where
  \<comment> \<open>the literal of rpc.py line 212, without its braces\<close>
  "BASE_NS_1_0 = Uri ''urn:ietf:params:xml:ns:netconf:base:1.0''"

datatype qname = QName (namespace_of: "namespace option") (local_name: string)

datatype elem = Element (tag: qname) (text_of: "string option") (children: "elem list")

text \<open>
  Modelled from the spec: the markup-construction capability of section 6
  (\<open>newElement(name, namespace)\<close>, \<open>appendChild(parent, name, namespace)\<close>,
  \<open>setText(node, text)\<close>), which rpc.py reaches as \<open>qualify\<close>, \<open>new_ele\<close>,
  \<open>new_ele_ns\<close>, \<open>sub_ele\<close>, \<open>sub_ele_ns\<close>, \<open>node.append\<close> and \<open>.text = ...\<close>.
  \<open>qualify\<close> and the helpers without \<open>_ns\<close> default to the base namespace.
  The library's own checks of tag and text well-formedness are outside the model.
\<close>

definition qualify :: "string \<Rightarrow> namespace option \<Rightarrow> qname" where
  "qualify t ns = QName ns t"

definition new_ele_ns :: "string \<Rightarrow> namespace \<Rightarrow> elem" where
  "new_ele_ns t ns = Element (qualify t (Some ns)) None []"

definition new_ele :: "string \<Rightarrow> elem" where
  "new_ele t = new_ele_ns t BASE_NS_1_0"

definition append_child :: "elem \<Rightarrow> elem \<Rightarrow> elem" where
  \<comment> \<open>\<open>node.append(child)\<close>: the node after the call\<close>
  "append_child node child = Element (tag node) (text_of node) (children node @ [child])"

definition sub_ele_ns :: "elem \<Rightarrow> string \<Rightarrow> namespace \<Rightarrow> elem" where
  \<comment> \<open>the parent after the call; the element the call returns is its last child\<close>
  "sub_ele_ns parent t ns = append_child parent (new_ele_ns t ns)"

definition sub_ele :: "elem \<Rightarrow> string \<Rightarrow> elem" where
  "sub_ele parent t = append_child parent (new_ele t)"

definition set_text :: "string \<Rightarrow> elem \<Rightarrow> elem" where
  "set_text s node = Element (tag node) (Some s) (children node)"

definition set_tag :: "qname \<Rightarrow> elem \<Rightarrow> elem" where
  "set_tag q node = Element q (text_of node) (children node)"

fun on_last :: "(elem \<Rightarrow> elem) \<Rightarrow> elem \<Rightarrow> elem" where
  \<comment> \<open>a mutation of the element that the preceding \<open>sub_ele\<close> call returned\<close>
  "on_last f (Element q x cs) =
     (case rev cs of [] \<Rightarrow> Element q x cs | c # before \<Rightarrow> Element q x (rev before @ [f c]))"

fun desc_names :: "elem \<Rightarrow> string list" where
  \<comment> \<open>local names of all elements below the root, in document order\<close>
  "desc_names (Element q x cs) = concat (map (\<lambda>c. local_name (tag c) # desc_names c) cs)"

subsection \<open>Errors, arguments and results\<close>

text \<open>
  \<open>OperationError\<close> is the exception rpc.py raises itself (the spec's
  \<open>InvalidArgument\<close>). \<open>UnsupportedCapability\<close> (carrying the capability asked for)
  and \<open>MalformedPayload\<close> are the spec's names for what the capability check and the
  payload validation raise; \<open>TypeError\<close> and \<open>OtherError\<close> stand for every other
  exception of a collaborator.
\<close>

datatype error =
    OperationError string
  | UnsupportedCapability string
  | MalformedPayload string
  | TypeError string
  | OtherError string

text \<open>A duck-typed argument: a string or an element tree.\<close>

datatype pyval = Str string | Ele elem

text \<open>A keyword argument the caller may leave out; the signature then supplies its default.\<close>

datatype 'a arg = Omitted | Given 'a

fun or_default :: "'a \<Rightarrow> 'a arg \<Rightarrow> 'a" where
  "or_default d Omitted = d"
| "or_default d (Given v) = v"

text \<open>Python truth value of an optional string: \<open>None\<close> and \<open>""\<close> are false.\<close>

fun truthy :: "string option \<Rightarrow> bool" where
  "truthy None = False"
| "truthy (Some s) = (s \<noteq> [])"

text \<open>
  A call mutates the request node and either returns or raises. Its result is the node
  as the call left it, paired with the exception raised, if any. For a builder, the
  outcome \<open>None\<close> means that the node was handed to \<open>self._request\<close>.
\<close>

type_synonym result = "elem \<times> error option"

definition and_then :: "result \<Rightarrow> (elem \<Rightarrow> result) \<Rightarrow> result" where
  "and_then r f = (case r of (node, None) \<Rightarrow> f node | (node, Some e) \<Rightarrow> (node, Some e))"

definition try_append :: "elem \<Rightarrow> error + elem \<Rightarrow> result" where
  \<comment> \<open>\<open>node.append(helper(...))\<close> where the helper may raise\<close>
  "try_append node r = (case r of Inl e \<Rightarrow> (node, Some e) | Inr c \<Rightarrow> (append_child node c, None))"

text \<open>
  Modelled from the spec: \<open>RPC._assert\<close> is not part of rpc.py; section 7 says it fails
  with \<open>UnsupportedCapability\<close> when the session has not advertised the capability.
  \<open>None\<close> is a check that passes.
\<close>

definition assert_capability :: "string list \<Rightarrow> string \<Rightarrow> error option" where
  "assert_capability server_capabilities capability =
     (if capability \<in> set server_capabilities then None
      else Some (UnsupportedCapability capability))"

subsection \<open>Option encoders\<close>

definition add_service_commit_params :: "elem \<Rightarrow> bool \<Rightarrow> string option \<Rightarrow> result" where
  "add_service_commit_params node no_deploy reconcile =
     (let node = (if no_deploy then sub_ele_ns node ''no-deploy'' TAILF_NS_NCS else node) in
      case reconcile of
        None \<Rightarrow> (node, None)
      | Some r \<Rightarrow>
          if r \<notin> set [''keep-non-service-config'', ''discard-non-service-config'']
          then (node, Some (OperationError (''Wrong reconcile argument: '' @ r)))
          else (let node = sub_ele_ns node ''reconcile'' TAILF_NS_NCS;
                    node = on_last (\<lambda>rec_node. sub_ele_ns rec_node r TAILF_NS_NCS) node
                in (node, None)))"

definition add_rollback_meta_data :: "elem \<Rightarrow> string option \<Rightarrow> string option \<Rightarrow> elem" where
  "add_rollback_meta_data node rollback_label rollback_comment =
     (let node = (if truthy rollback_label
                  then on_last (set_text (the rollback_label)) (sub_ele_ns node ''label'' TAILF_NS_ROLLBACK)
                  else node);
          node = (if truthy rollback_comment
                  then on_last (set_text (the rollback_comment)) (sub_ele_ns node ''comment'' TAILF_NS_ROLLBACK)
                  else node)
      in node)"

definition add_with_transaction_id :: "elem \<Rightarrow> bool \<Rightarrow> elem" where
  "add_with_transaction_id node with_transaction_id =
     (if with_transaction_id then sub_ele_ns node ''with-transaction-id'' TAILF_NS_WTI else node)"

definition add_with_inactive :: "elem \<Rightarrow> bool \<Rightarrow> elem" where
  "add_with_inactive node with_inactive =
     (if with_inactive then sub_ele_ns node ''with-inactive'' TAILF_NS_INACTIVE else node)"

subsection \<open>Collaborators outside rpc.py\<close>

text \<open>
  \<open>util.datastore_or_url(wha, loc, capcheck)\<close> and \<open>validated_element(x, tags)\<close>
  are called by the builders but defined elsewhere. The builders below take them as
  parameters, so that every theorem about a builder holds for whatever these helpers
  do; each returns an element or raises.
\<close>

type_synonym datastore_or_url_fn = "string \<Rightarrow> pyval \<Rightarrow> (string \<Rightarrow> error option) \<Rightarrow> error + elem"

type_synonym validated_element_fn = "pyval \<Rightarrow> qname list \<Rightarrow> error + elem"

fun contains_sub :: "string \<Rightarrow> string \<Rightarrow> bool" where
  \<comment> \<open>Python's \<open>sub in s\<close> on strings\<close>
  "contains_sub sub [] = (sub = [])"
| "contains_sub sub (c # cs) = (take (length sub) (c # cs) = sub \<or> contains_sub sub cs)"

text \<open>
  Modelled from the spec: \<open>util.datastore_or_url\<close> is not part of rpc.py; the spec
  calls it the interpretation of an argument as a named datastore or URL. A name becomes
  an empty child of the \<open>wha\<close> element, a URL a \<open>url\<close> child with the URL as text,
  guarded by the \<open>:url\<close> capability; an element tree is no name and raises. It is
  used below only to run the builders on concrete inputs.
\<close>

definition datastore_or_url :: datastore_or_url_fn where
  "datastore_or_url wha loc capcheck =
     (case loc of
        Ele x \<Rightarrow> Inl (TypeError ''datastore name expected'')
      | Str s \<Rightarrow>
          if contains_sub ''://'' s
          then (case capcheck '':url'' of
                  Some e \<Rightarrow> Inl e
                | None \<Rightarrow> Inr (on_last (set_text s) (sub_ele (new_ele wha) ''url'')))
          else Inr (sub_ele (new_ele wha) s))"

text \<open>
  Modelled from the spec: \<open>validated_element\<close> is not part of rpc.py; by section 3 a
  structured payload must be rooted at one of the expected tags, and by section 7 it
  raises \<open>MalformedPayload\<close> otherwise. Parsing a payload given as markup text belongs
  to the markup library and is the parameter \<open>to_ele\<close>. It is used below only to run
  the builders on concrete inputs.
\<close>

definition validated_element :: "(string \<Rightarrow> error + elem) \<Rightarrow> validated_element_fn" where
  "validated_element to_ele x tags =
     (case (case x of Ele e \<Rightarrow> Inr e | Str s \<Rightarrow> to_ele s) of
        Inl err \<Rightarrow> Inl err
      | Inr ele \<Rightarrow>
          if tag ele \<in> set tags then Inr ele
          else Inl (MalformedPayload ''Element does not meet requirement''))"

definition no_parser :: "string \<Rightarrow> error + elem" where
  \<comment> \<open>a markup library that accepts no text at all\<close>
  "no_parser s = Inl (MalformedPayload ''not well-formed'')"

subsection \<open>Request builders\<close>


definition PrepareTransaction_request ::
  "string option arg \<Rightarrow> bool arg \<Rightarrow> bool arg \<Rightarrow> string option arg \<Rightarrow>
   string option arg \<Rightarrow> string option arg \<Rightarrow> result" where
  "PrepareTransaction_request dry_run dry_run_reverse no_deploy reconcile
       rollback_label rollback_comment =
     (let dry_run = or_default None dry_run;
          dry_run_reverse = or_default False dry_run_reverse;
          no_deploy = or_default False no_deploy;
          reconcile = or_default None reconcile;
          rollback_label = or_default None rollback_label;
          rollback_comment = or_default None rollback_comment;
          node = new_ele_ns ''prepare-transaction'' TAILF_NS
      in
      and_then
        (case dry_run of
           None \<Rightarrow> (node, None)
         | Some d \<Rightarrow>
             if d \<notin> set [''native'', ''cli'', ''xml'']
             then (node, Some (OperationError (''Wrong dry-run argument: '' @ d)))
             else (let node = sub_ele_ns node ''dry-run'' TAILF_NS_NCS;
                       node = on_last (\<lambda>dr_node.
                                on_last (set_text d) (sub_ele_ns dr_node ''outformat'' TAILF_NS_NCS)) node;
                       node = (if dry_run_reverse
                               then on_last (\<lambda>dr_node. sub_ele_ns dr_node ''reverse'' TAILF_NS_NCS) node
                               else node)
                   in (node, None)))
        (\<lambda>node.
      and_then (add_service_commit_params node no_deploy reconcile)
        (\<lambda>node.
      (add_rollback_meta_data node rollback_label rollback_comment, None))))"



definition EditConfig_request ::
  "datastore_or_url_fn \<Rightarrow> validated_element_fn \<Rightarrow> string list \<Rightarrow>
   pyval \<Rightarrow> string arg \<Rightarrow> string arg \<Rightarrow> string option arg \<Rightarrow> string option arg \<Rightarrow>
   string option arg \<Rightarrow> bool arg \<Rightarrow> string option arg \<Rightarrow> string option arg \<Rightarrow>
   string option arg \<Rightarrow> bool arg \<Rightarrow> bool arg \<Rightarrow> result" where
  "EditConfig_request ds_or_url valid_ele server_capabilities
       config format target default_operation test_option error_option no_deploy reconcile
       rollback_label rollback_comment with_transaction_id with_inactive =
     (let format = or_default ''xml'' format;
          target = or_default ''candidate'' target;
          default_operation = or_default None default_operation;
          test_option = or_default None test_option;
          error_option = or_default None error_option;
          no_deploy = or_default False no_deploy;
          reconcile = or_default None reconcile;
          rollback_label = or_default None rollback_label;
          rollback_comment = or_default None rollback_comment;
          with_transaction_id = or_default False with_transaction_id;
          with_inactive = or_default False with_inactive;
          node = new_ele ''edit-config''
      in
      and_then
        (try_append node
           (ds_or_url ''target'' (Str target) (assert_capability server_capabilities)))
        (\<lambda>node.
      and_then
        (case default_operation of
           None \<Rightarrow> (node, None)
         | Some d \<Rightarrow> (on_last (set_text d) (sub_ele node ''default-operation''), None))
        (\<lambda>node.
      and_then
        (case test_option of
           None \<Rightarrow> (node, None)
         | Some t \<Rightarrow>
             and_then (node, assert_capability server_capabilities '':validate'')
               (\<lambda>node. (on_last (set_text t) (sub_ele node ''test-option''), None)))
        (\<lambda>node.
      and_then
        (case error_option of
           None \<Rightarrow> (node, None)
         | Some eo \<Rightarrow>
             and_then
               (if eo = ''rollback-on-error''
                then (node, assert_capability server_capabilities '':rollback-on-error'')
                else (node, None))
               (\<lambda>node. (on_last (set_text eo) (sub_ele node ''error-option''), None)))
        (\<lambda>node.
      and_then (add_service_commit_params node no_deploy reconcile)
        (\<lambda>node.
      let node = add_rollback_meta_data node rollback_label rollback_comment;
          node = add_with_transaction_id node with_transaction_id;
          node = add_with_inactive node with_inactive
      in
      and_then
        (if format = ''xml''
         then (case valid_ele config [QName None ''config'', qualify ''config'' (Some BASE_NS_1_0)] of
                 Inl e \<Rightarrow> (node, Some e)
               | Inr config_node \<Rightarrow>
                   (append_child node (set_tag (QName (Some BASE_NS_1_0) ''config'') config_node), None))
         else (node, None))
        (\<lambda>node.
      if format = ''text''
      then (let node = sub_ele node ''config-text'';
                node = on_last (\<lambda>config_text. sub_ele config_text ''configuration-text'') node
            in case config of
                 Str s \<Rightarrow> (on_last (on_last (set_text s)) node, None)
               | Ele x \<Rightarrow> (node, Some (TypeError ''text must be a string'')))
      else (node, None))))))))"

definition CopyConfig_request ::
  "datastore_or_url_fn \<Rightarrow> validated_element_fn \<Rightarrow> string list \<Rightarrow>
   pyval \<Rightarrow> pyval \<Rightarrow> bool arg \<Rightarrow> string option arg \<Rightarrow> bool arg \<Rightarrow> bool arg \<Rightarrow> result" where
  "CopyConfig_request ds_or_url valid_ele server_capabilities
       source target no_deploy reconcile with_transaction_id with_inactive =
     (let no_deploy = or_default False no_deploy;
          reconcile = or_default None reconcile;
          with_transaction_id = or_default False with_transaction_id;
          with_inactive = or_default False with_inactive;
          node = new_ele ''copy-config''
      in
      and_then
        (try_append node
           (ds_or_url ''target'' target (assert_capability server_capabilities)))
        (\<lambda>node.
      and_then
        (case ds_or_url ''source'' source (assert_capability server_capabilities) of
           Inr s \<Rightarrow> (append_child node s, None)
         | Inl e \<Rightarrow>
             try_append node
               (valid_ele source [QName None ''source'', qualify ''source'' (Some BASE_NS_1_0)]))
        (\<lambda>node.
      and_then (add_service_commit_params node no_deploy reconcile)
        (\<lambda>node.
      let node = add_with_transaction_id node with_transaction_id;
          node = add_with_inactive node with_inactive
      in (node, None)))))"

text \<open>
  Modelled from the spec: the base class \<open>RPC\<close> is not part of rpc.py. A class of
  rpc.py may list capabilities in \<open>DEPENDS\<close>; creating the operation asserts each of
  them, with the failure of section 7 (\<open>UnsupportedCapability\<close>), and \<open>request\<close>
  runs only on an operation that was created.
\<close>

fun assert_depends :: "string list \<Rightarrow> string list \<Rightarrow> error option" where
  "assert_depends server_capabilities [] = None"
| "assert_depends server_capabilities (capability # depends) =
     (case assert_capability server_capabilities capability of
        Some e \<Rightarrow> Some e
      | None \<Rightarrow> assert_depends server_capabilities depends)"

text \<open>
  \<open>Commit\<close> is the one class modelled here that declares \<open>DEPENDS\<close>. The outcome
  \<open>Inl e\<close> of \<open>Commit_request\<close> is the failure to create the operation: no node was
  created and \<open>request\<close> never ran; \<open>Inr r\<close> is the result \<open>r\<close> of \<open>request\<close>.
\<close>

definition Commit_DEPENDS :: "string list" where
  "Commit_DEPENDS = ['':candidate'']"

definition Commit_request ::
  "string list \<Rightarrow> bool arg \<Rightarrow> string option arg \<Rightarrow> string option arg \<Rightarrow> string option arg \<Rightarrow>
   bool arg \<Rightarrow> string option arg \<Rightarrow> string option arg \<Rightarrow> string option arg \<Rightarrow> bool arg \<Rightarrow>
   error + result" where
  "Commit_request server_capabilities confirmed timeout persist persist_id
       no_deploy reconcile rollback_label rollback_comment with_transaction_id =
     (case assert_depends server_capabilities Commit_DEPENDS of
        Some e \<Rightarrow> Inl e
      | None \<Rightarrow> Inr
     (let confirmed = or_default False confirmed;
          timeout = or_default None timeout;
          persist = or_default None persist;
          persist_id = or_default None persist_id;
          no_deploy = or_default False no_deploy;
          reconcile = or_default None reconcile;
          rollback_label = or_default None rollback_label;
          rollback_comment = or_default None rollback_comment;
          with_transaction_id = or_default False with_transaction_id;
          node = new_ele ''commit''
      in
      if (confirmed \<or> truthy persist) \<and> truthy persist_id
      then (node, Some (OperationError
              ''Invalid operation as confirmed or persist cannot be present with persist-id''))
      else
      and_then
        (if confirmed
         then and_then (node, assert_capability server_capabilities '':confirmed-commit'')
                (\<lambda>node.
                   let node = sub_ele node ''confirmed'';
                       node = (case timeout of
                                 None \<Rightarrow> node
                               | Some t \<Rightarrow> on_last (set_text t) (sub_ele node ''confirm-timeout''));
                       node = (case persist of
                                 None \<Rightarrow> node
                               | Some p \<Rightarrow> on_last (set_text p) (sub_ele node ''persist''))
                   in (node, None))
         else (node, None))
        (\<lambda>node.
      let node = (if truthy persist_id
                  then on_last (set_text (the persist_id)) (sub_ele node ''persist-id'')
                  else node)
      in
      and_then (add_service_commit_params node no_deploy reconcile)
        (\<lambda>node.
      let node = add_rollback_meta_data node rollback_label rollback_comment;
          node = add_with_transaction_id node with_transaction_id
      in (node, None)))))"

subsection \<open>Notation for the children of a request\<close>

text \<open>
  Shorthand for writing down the element trees that the theorems below expect: an empty
  element, an element that holds text only, and the list of zero or one such element
  that an optional argument contributes.
\<close>

abbreviation marker :: "namespace \<Rightarrow> string \<Rightarrow> elem" where
  "marker ns name \<equiv> Element (QName (Some ns) name) None []"

abbreviation leaf :: "namespace \<Rightarrow> string \<Rightarrow> string \<Rightarrow> elem" where
  "leaf ns name s \<equiv> Element (QName (Some ns) name) (Some s) []"

abbreviation marker_if :: "bool \<Rightarrow> namespace \<Rightarrow> string \<Rightarrow> elem list" where
  "marker_if b ns name \<equiv> (if b then [marker ns name] else [])"

abbreviation leaf_if_given :: "string option \<Rightarrow> namespace \<Rightarrow> string \<Rightarrow> elem list" where
  "leaf_if_given x ns name \<equiv> (case x of None \<Rightarrow> [] | Some s \<Rightarrow> [leaf ns name s])"

abbreviation leaf_if_truthy :: "string option \<Rightarrow> namespace \<Rightarrow> string \<Rightarrow> elem list" where
  "leaf_if_truthy x ns name \<equiv> (if truthy x then [leaf ns name (the x)] else [])"

section \<open>Properties\<close>

subsection \<open>Facts about the markup primitives\<close>

lemma append_child_Element [simp]:
  "append_child (Element q x cs) c = Element q x (cs @ [c])"
  by (simp add: append_child_def)

lemma children_append_child [simp]: "children (append_child node c) = children node @ [c]"
  by (simp add: append_child_def)

lemma tag_append_child [simp]: "tag (append_child node c) = tag node"
  by (simp add: append_child_def)

lemma text_of_append_child [simp]: "text_of (append_child node c) = text_of node"
  by (simp add: append_child_def)

lemma on_last_append_child [simp]:
  "on_last f (append_child node c) = append_child node (f c)"
  by (cases node) (simp add: append_child_def)

lemma on_last_snoc [simp]: "on_last f (Element q x (cs @ [c])) = Element q x (cs @ [f c])"
  by simp

subsection \<open>Service-commit parameters\<close>

text \<open>
  C6. For each of the two reconcile values, \<open>add_service_commit_params\<close> appends,
  after the no-deploy marker if that was asked for, exactly one \<open>reconcile\<close> element
  whose single child is named after the value, and returns. With \<open>no_deploy\<close> true and
  no reconcile value it appends the \<open>no-deploy\<close> marker alone. For every other
  reconcile value that is not \<open>None\<close> it raises \<open>OperationError\<close>, the spec's
  InvalidArgument.
\<close>

theorem add_service_commit_params_encodes:
  "(r \<in> {''keep-non-service-config'', ''discard-non-service-config''} \<longrightarrow>
      add_service_commit_params node no_deploy (Some r) =
        (Element (tag node) (text_of node)
           (children node
            @ (if no_deploy then [Element (QName (Some TAILF_NS_NCS) ''no-deploy'') None []] else [])
            @ [Element (QName (Some TAILF_NS_NCS) ''reconcile'') None
                 [Element (QName (Some TAILF_NS_NCS) r) None []]]),
         None))
   \<and> add_service_commit_params node True None =
        (Element (tag node) (text_of node)
           (children node @ [Element (QName (Some TAILF_NS_NCS) ''no-deploy'') None []]), None)
   \<and> (r \<notin> {''keep-non-service-config'', ''discard-non-service-config''} \<longrightarrow>
        snd (add_service_commit_params node no_deploy (Some r))
          = Some (OperationError (''Wrong reconcile argument: '' @ r)))"
  by (cases node)
     (auto simp: add_service_commit_params_def sub_ele_ns_def new_ele_ns_def qualify_def Let_def)

theorem add_service_commit_params_encodes_witness:
  "add_service_commit_params (new_ele ''commit'') False (Some ''keep-non-service-config'') =
     (Element (QName (Some BASE_NS_1_0) ''commit'') None
        [Element (QName (Some TAILF_NS_NCS) ''reconcile'') None
           [Element (QName (Some TAILF_NS_NCS) ''keep-non-service-config'') None []]], None)
   \<and> snd (add_service_commit_params (new_ele ''commit'') True (Some ''merge''))
       = Some (OperationError ''Wrong reconcile argument: merge'')"
  using add_service_commit_params_encodes [of "''keep-non-service-config''" "new_ele ''commit''" False]
        add_service_commit_params_encodes [of "''merge''" "new_ele ''commit''" True]
  by (simp add: new_ele_def new_ele_ns_def qualify_def)

subsection \<open>Sequencing and element names\<close>

lemma and_then_simps [simp]:
  "and_then (node, None) f = f node"
  "and_then (node, Some e) f = (node, Some e)"
  by (simp_all add: and_then_def)

lemma desc_names_append_child [simp]:
  "desc_names (append_child node c) = desc_names node @ local_name (tag c) # desc_names c"
  by (cases node) simp

lemma desc_names_new_ele_ns [simp]: "desc_names (new_ele_ns t ns) = []"
  by (simp add: new_ele_ns_def)

lemma desc_names_set_text [simp]: "desc_names (set_text s node) = desc_names node"
  by (cases node) (simp add: set_text_def)

lemma tag_set_text [simp]: "tag (set_text s node) = tag node"
  by (simp add: set_text_def)

lemma tag_new_ele_ns [simp]: "tag (new_ele_ns t ns) = QName (Some ns) t"
  by (simp add: new_ele_ns_def qualify_def)

subsection \<open>PrepareTransaction\<close>

text \<open>
  C5. \<open>PrepareTransaction\<close> called with \<open>dry_run="xml"\<close> and every other argument left
  out hands over a \<open>prepare-transaction\<close> request whose only child is the \<open>dry-run\<close>
  element, which holds one \<open>outformat\<close> element with text \<open>xml\<close> and nothing else: no
  \<open>reverse\<close> marker, no \<open>no-deploy\<close>, \<open>reconcile\<close>, \<open>label\<close> or \<open>comment\<close>. A
  \<open>dry_run\<close> value outside native, cli and xml raises \<open>OperationError\<close> (the spec's
  InvalidArgument), whatever the other arguments are.
\<close>

theorem PrepareTransaction_dry_run:
  "PrepareTransaction_request (Given (Some ''xml'')) Omitted Omitted Omitted Omitted Omitted =
     (Element (QName (Some TAILF_NS) ''prepare-transaction'') None
        [Element (QName (Some TAILF_NS_NCS) ''dry-run'') None
           [Element (QName (Some TAILF_NS_NCS) ''outformat'') (Some ''xml'') []]], None)
   \<and> (d \<notin> {''native'', ''cli'', ''xml''} \<longrightarrow>
        snd (PrepareTransaction_request (Given (Some d)) dry_run_reverse no_deploy reconcile
               rollback_label rollback_comment)
          = Some (OperationError (''Wrong dry-run argument: '' @ d)))"
  by (simp add: PrepareTransaction_request_def add_service_commit_params_def
      add_rollback_meta_data_def sub_ele_ns_def new_ele_ns_def qualify_def set_text_def Let_def)

theorem PrepareTransaction_dry_run_witness:
  "snd (PrepareTransaction_request (Given (Some ''json'')) (Given True) Omitted Omitted Omitted Omitted)
     = Some (OperationError ''Wrong dry-run argument: json'')"
  using PrepareTransaction_dry_run [of "''json''" "Given True" Omitted Omitted Omitted Omitted]
  by simp

subsection \<open>The steps of a builder on an explicit node\<close>

lemmas markup_defs =
  sub_ele_def sub_ele_ns_def new_ele_def new_ele_ns_def qualify_def set_text_def set_tag_def

lemma step_leaf:
  "(case x of None \<Rightarrow> (Element q y cs, None)
            | Some d \<Rightarrow> (on_last (set_text d) (sub_ele (Element q y cs) name), None)) =
   (Element q y (cs @ leaf_if_given x BASE_NS_1_0 name), None)"
  by (cases x) (simp_all add: markup_defs)

lemma step_checked_leaf:
  "(x \<noteq> None \<longrightarrow> c \<in> set caps) \<Longrightarrow>
   (case x of None \<Rightarrow> (Element q y cs, None)
            | Some t \<Rightarrow> and_then (Element q y cs, assert_capability caps c)
                         (\<lambda>node. (on_last (set_text t) (sub_ele node name), None))) =
   (Element q y (cs @ leaf_if_given x BASE_NS_1_0 name), None)"
  by (cases x) (simp_all add: markup_defs assert_capability_def)

lemma step_guarded_leaf:
  "(x = Some v \<longrightarrow> c \<in> set caps) \<Longrightarrow>
   (case x of None \<Rightarrow> (Element q y cs, None)
            | Some eo \<Rightarrow> and_then (if eo = v then (Element q y cs, assert_capability caps c)
                                    else (Element q y cs, None))
                          (\<lambda>node. (on_last (set_text eo) (sub_ele node name), None))) =
   (Element q y (cs @ leaf_if_given x BASE_NS_1_0 name), None)"
  by (cases x) (simp_all add: markup_defs assert_capability_def)

lemma add_service_commit_params_valid:
  "(\<forall>r. rc = Some r \<longrightarrow> r \<in> {''keep-non-service-config'', ''discard-non-service-config''}) \<Longrightarrow>
   add_service_commit_params (Element q y cs) nd rc =
     (Element q y (cs @ marker_if nd TAILF_NS_NCS ''no-deploy''
        @ (case rc of None \<Rightarrow> []
           | Some r \<Rightarrow> [Element (QName (Some TAILF_NS_NCS) ''reconcile'') None [marker TAILF_NS_NCS r]])),
      None)"
  by (cases rc) (auto simp add: add_service_commit_params_def markup_defs Let_def)

lemma add_rollback_meta_data_children:
  "add_rollback_meta_data (Element q y cs) l c =
     Element q y (cs @ leaf_if_truthy l TAILF_NS_ROLLBACK ''label''
                     @ leaf_if_truthy c TAILF_NS_ROLLBACK ''comment'')"
  by (cases l; cases c) (simp_all add: add_rollback_meta_data_def markup_defs Let_def)

lemma add_with_transaction_id_children:
  "add_with_transaction_id (Element q y cs) b =
     Element q y (cs @ marker_if b TAILF_NS_WTI ''with-transaction-id'')"
  by (simp add: add_with_transaction_id_def markup_defs)

lemma add_with_inactive_children:
  "add_with_inactive (Element q y cs) b =
     Element q y (cs @ marker_if b TAILF_NS_INACTIVE ''with-inactive'')"
  by (simp add: add_with_inactive_def markup_defs)

subsection \<open>Where each builder raises\<close>



lemma assert_depends_Commit [simp]:
  "assert_depends caps Commit_DEPENDS =
     (if '':candidate'' \<in> set caps then None else Some (UnsupportedCapability '':candidate''))"
  by (simp add: Commit_DEPENDS_def assert_capability_def)

lemma Commit_depends_missing:
  "'':candidate'' \<notin> set caps \<Longrightarrow>
   Commit_request caps confirmed timeout persist persist_id no_deploy reconcile
       rollback_label rollback_comment with_transaction_id =
     Inl (UnsupportedCapability '':candidate'')"
  by (simp add: Commit_request_def)

lemma Commit_conflict:
  "'':candidate'' \<in> set caps \<Longrightarrow>
   (or_default False confirmed \<or> truthy (or_default None persist))
     \<and> truthy (or_default None persist_id) \<Longrightarrow>
   Commit_request caps confirmed timeout persist persist_id no_deploy reconcile
       rollback_label rollback_comment with_transaction_id =
     Inr (Element (QName (Some BASE_NS_1_0) ''commit'') None [],
          Some (OperationError
            ''Invalid operation as confirmed or persist cannot be present with persist-id''))"
  by (simp add: Commit_request_def markup_defs Let_def)

lemma Commit_confirmed_commit_missing:
  "'':candidate'' \<in> set caps \<Longrightarrow>
   \<not> ((or_default False confirmed \<or> truthy (or_default None persist))
     \<and> truthy (or_default None persist_id)) \<Longrightarrow>
   or_default False confirmed \<Longrightarrow> '':confirmed-commit'' \<notin> set caps \<Longrightarrow>
   Commit_request caps confirmed timeout persist persist_id no_deploy reconcile
       rollback_label rollback_comment with_transaction_id =
     Inr (Element (QName (Some BASE_NS_1_0) ''commit'') None [],
          Some (UnsupportedCapability '':confirmed-commit''))"
  by (simp add: Commit_request_def markup_defs assert_capability_def Let_def)

lemma Commit_reconcile_invalid:
  "'':candidate'' \<in> set caps \<Longrightarrow>
   \<not> ((or_default False confirmed \<or> truthy (or_default None persist))
     \<and> truthy (or_default None persist_id)) \<Longrightarrow>
   (or_default False confirmed \<longrightarrow> '':confirmed-commit'' \<in> set caps) \<Longrightarrow>
   or_default None reconcile = Some r \<Longrightarrow>
   r \<notin> {''keep-non-service-config'', ''discard-non-service-config''} \<Longrightarrow>
   Commit_request caps confirmed timeout persist persist_id no_deploy reconcile
       rollback_label rollback_comment with_transaction_id =
     Inr (Element (QName (Some BASE_NS_1_0) ''commit'') None
            ((if or_default False confirmed
              then marker BASE_NS_1_0 ''confirmed''
                   # leaf_if_given (or_default None timeout) BASE_NS_1_0 ''confirm-timeout''
                   @ leaf_if_given (or_default None persist) BASE_NS_1_0 ''persist''
              else [])
             @ leaf_if_truthy (or_default None persist_id) BASE_NS_1_0 ''persist-id''
             @ marker_if (or_default False no_deploy) TAILF_NS_NCS ''no-deploy''),
          Some (OperationError (''Wrong reconcile argument: '' @ r)))"
  by (simp add: Commit_request_def add_service_commit_params_def assert_capability_def
      markup_defs Let_def split: option.splits)


lemma CopyConfig_source_fails:
  "ds_or_url ''target'' target (assert_capability caps) = Inr t \<Longrightarrow>
   ds_or_url ''source'' source (assert_capability caps) = Inl e \<Longrightarrow>
   valid_ele source [QName None ''source'', QName (Some BASE_NS_1_0) ''source''] = Inl e_v \<Longrightarrow>
   CopyConfig_request ds_or_url valid_ele caps source target no_deploy reconcile
       with_transaction_id with_inactive =
     (Element (QName (Some BASE_NS_1_0) ''copy-config'') None [t], Some e_v)"
  by (simp add: CopyConfig_request_def try_append_def markup_defs Let_def)



lemma EditConfig_validate_missing:
  "ds_or_url ''target'' (Str (or_default ''candidate'' target)) (assert_capability caps) = Inr t \<Longrightarrow>
   or_default None test_option \<noteq> None \<Longrightarrow> '':validate'' \<notin> set caps \<Longrightarrow>
   EditConfig_request ds_or_url valid_ele caps config format target default_operation
       test_option error_option no_deploy reconcile rollback_label rollback_comment
       with_transaction_id with_inactive =
     (Element (QName (Some BASE_NS_1_0) ''edit-config'') None
        (t # leaf_if_given (or_default None default_operation) BASE_NS_1_0 ''default-operation''),
      Some (UnsupportedCapability '':validate''))"
  by (auto simp add: EditConfig_request_def try_append_def assert_capability_def
      markup_defs Let_def split: option.splits)

lemma EditConfig_rollback_missing:
  "ds_or_url ''target'' (Str (or_default ''candidate'' target)) (assert_capability caps) = Inr t \<Longrightarrow>
   (or_default None test_option \<noteq> None \<longrightarrow> '':validate'' \<in> set caps) \<Longrightarrow>
   or_default None error_option = Some ''rollback-on-error'' \<Longrightarrow>
   '':rollback-on-error'' \<notin> set caps \<Longrightarrow>
   EditConfig_request ds_or_url valid_ele caps config format target default_operation
       test_option error_option no_deploy reconcile rollback_label rollback_comment
       with_transaction_id with_inactive =
     (Element (QName (Some BASE_NS_1_0) ''edit-config'') None
        (t # leaf_if_given (or_default None default_operation) BASE_NS_1_0 ''default-operation''
           @ leaf_if_given (or_default None test_option) BASE_NS_1_0 ''test-option''),
      Some (UnsupportedCapability '':rollback-on-error''))"
  by (auto simp add: EditConfig_request_def try_append_def assert_capability_def
      markup_defs Let_def split: option.splits)

lemma EditConfig_reconcile_invalid:
  "ds_or_url ''target'' (Str (or_default ''candidate'' target)) (assert_capability caps) = Inr t \<Longrightarrow>
   (or_default None test_option \<noteq> None \<longrightarrow> '':validate'' \<in> set caps) \<Longrightarrow>
   (or_default None error_option = Some ''rollback-on-error'' \<longrightarrow>
      '':rollback-on-error'' \<in> set caps) \<Longrightarrow>
   or_default None reconcile = Some r \<Longrightarrow>
   r \<notin> {''keep-non-service-config'', ''discard-non-service-config''} \<Longrightarrow>
   EditConfig_request ds_or_url valid_ele caps config format target default_operation
       test_option error_option no_deploy reconcile rollback_label rollback_comment
       with_transaction_id with_inactive =
     (Element (QName (Some BASE_NS_1_0) ''edit-config'') None
        (t # leaf_if_given (or_default None default_operation) BASE_NS_1_0 ''default-operation''
           @ leaf_if_given (or_default None test_option) BASE_NS_1_0 ''test-option''
           @ leaf_if_given (or_default None error_option) BASE_NS_1_0 ''error-option''
           @ marker_if (or_default False no_deploy) TAILF_NS_NCS ''no-deploy''),
      Some (OperationError (''Wrong reconcile argument: '' @ r)))"
  by (auto simp add: EditConfig_request_def try_append_def assert_capability_def
      add_service_commit_params_def markup_defs Let_def split: option.splits)

lemma EditConfig_rejects_config:
  "ds_or_url ''target'' (Str (or_default ''candidate'' target)) (assert_capability caps) = Inr t \<Longrightarrow>
   (or_default None test_option \<noteq> None \<longrightarrow> '':validate'' \<in> set caps) \<Longrightarrow>
   (or_default None error_option = Some ''rollback-on-error'' \<longrightarrow>
      '':rollback-on-error'' \<in> set caps) \<Longrightarrow>
   (\<forall>r. or_default None reconcile = Some r \<longrightarrow>
        r \<in> {''keep-non-service-config'', ''discard-non-service-config''}) \<Longrightarrow>
   or_default ''xml'' format = ''xml'' \<Longrightarrow>
   valid_ele config [QName None ''config'', QName (Some BASE_NS_1_0) ''config''] = Inl e \<Longrightarrow>
   EditConfig_request ds_or_url valid_ele caps config format target default_operation
       test_option error_option no_deploy reconcile rollback_label rollback_comment
       with_transaction_id with_inactive =
     (Element (QName (Some BASE_NS_1_0) ''edit-config'') None
        (t # leaf_if_given (or_default None default_operation) BASE_NS_1_0 ''default-operation''
           @ leaf_if_given (or_default None test_option) BASE_NS_1_0 ''test-option''
           @ leaf_if_given (or_default None error_option) BASE_NS_1_0 ''error-option''
           @ marker_if (or_default False no_deploy) TAILF_NS_NCS ''no-deploy''
           @ (case or_default None reconcile of
                None \<Rightarrow> []
              | Some r \<Rightarrow> [Element (QName (Some TAILF_NS_NCS) ''reconcile'') None
                            [marker TAILF_NS_NCS r]])
           @ leaf_if_truthy (or_default None rollback_label) TAILF_NS_ROLLBACK ''label''
           @ leaf_if_truthy (or_default None rollback_comment) TAILF_NS_ROLLBACK ''comment''
           @ marker_if (or_default False with_transaction_id) TAILF_NS_WTI ''with-transaction-id''
           @ marker_if (or_default False with_inactive) TAILF_NS_INACTIVE ''with-inactive''),
      Some e)"
  by (simp add: EditConfig_request_def try_append_def Let_def new_ele_def new_ele_ns_def qualify_def
      step_leaf step_checked_leaf step_guarded_leaf add_service_commit_params_valid add_rollback_meta_data_children add_with_transaction_id_children add_with_inactive_children)

lemma EditConfig_returns:
  "ds_or_url ''target'' (Str (or_default ''candidate'' target)) (assert_capability caps) = Inr t \<Longrightarrow>
   (or_default None test_option \<noteq> None \<longrightarrow> '':validate'' \<in> set caps) \<Longrightarrow>
   (or_default None error_option = Some ''rollback-on-error'' \<longrightarrow>
      '':rollback-on-error'' \<in> set caps) \<Longrightarrow>
   (\<forall>r. or_default None reconcile = Some r \<longrightarrow>
        r \<in> {''keep-non-service-config'', ''discard-non-service-config''}) \<Longrightarrow>
   (or_default ''xml'' format = ''xml'' \<longrightarrow>
      (\<exists>c. valid_ele config [QName None ''config'', QName (Some BASE_NS_1_0) ''config''] = Inr c)) \<Longrightarrow>
   (or_default ''xml'' format = ''text'' \<longrightarrow> (\<exists>s. config = Str s)) \<Longrightarrow>
   snd (EditConfig_request ds_or_url valid_ele caps config format target default_operation
       test_option error_option no_deploy reconcile rollback_label rollback_comment
       with_transaction_id with_inactive) = None"
proof -
  assume t: "ds_or_url ''target'' (Str (or_default ''candidate'' target)) (assert_capability caps) = Inr t"
    and v: "or_default None test_option \<noteq> None \<longrightarrow> '':validate'' \<in> set caps"
    and e: "or_default None error_option = Some ''rollback-on-error'' \<longrightarrow>
              '':rollback-on-error'' \<in> set caps"
    and r: "\<forall>r. or_default None reconcile = Some r \<longrightarrow>
              r \<in> {''keep-non-service-config'', ''discard-non-service-config''}"
    and x: "or_default ''xml'' format = ''xml'' \<longrightarrow>
              (\<exists>c. valid_ele config [QName None ''config'', QName (Some BASE_NS_1_0) ''config''] = Inr c)"
    and s: "or_default ''xml'' format = ''text'' \<longrightarrow> (\<exists>s. config = Str s)"
  consider (is_xml) "or_default ''xml'' format = ''xml''"
    | (is_text) "or_default ''xml'' format = ''text''"
    | (neither) "or_default ''xml'' format \<noteq> ''xml''" "or_default ''xml'' format \<noteq> ''text''"
    by blast
  then show ?thesis
  proof cases
    case is_xml
    with x obtain c where
      "valid_ele config [QName None ''config'', QName (Some BASE_NS_1_0) ''config''] = Inr c"
      by blast
    with is_xml t v e r show ?thesis
      by (simp add: EditConfig_request_def try_append_def Let_def new_ele_def new_ele_ns_def
          qualify_def step_leaf step_checked_leaf step_guarded_leaf add_service_commit_params_valid add_rollback_meta_data_children add_with_transaction_id_children add_with_inactive_children)
  next
    case is_text
    with s obtain s where "config = Str s" by blast
    with is_text t v e r show ?thesis
      by (simp add: EditConfig_request_def try_append_def Let_def new_ele_def new_ele_ns_def
          qualify_def step_leaf step_checked_leaf step_guarded_leaf add_service_commit_params_valid add_rollback_meta_data_children add_with_transaction_id_children add_with_inactive_children)
  next
    case neither
    with t v e r show ?thesis
      by (simp add: EditConfig_request_def try_append_def Let_def new_ele_def new_ele_ns_def
          qualify_def step_leaf step_checked_leaf step_guarded_leaf add_service_commit_params_valid add_rollback_meta_data_children add_with_transaction_id_children add_with_inactive_children)
  qed
qed

subsection \<open>Validation and mutation\<close>




subsection \<open>Commit\<close>

lemma Commit_builds:
  "'':candidate'' \<in> set caps \<Longrightarrow>
   \<not> ((or_default False confirmed \<or> truthy (or_default None persist))
     \<and> truthy (or_default None persist_id)) \<Longrightarrow>
   (or_default False confirmed \<longrightarrow> '':confirmed-commit'' \<in> set caps) \<Longrightarrow>
   (\<forall>r. or_default None reconcile = Some r \<longrightarrow>
        r \<in> {''keep-non-service-config'', ''discard-non-service-config''}) \<Longrightarrow>
   Commit_request caps confirmed timeout persist persist_id no_deploy reconcile
       rollback_label rollback_comment with_transaction_id =
     Inr (Element (QName (Some BASE_NS_1_0) ''commit'') None
            ((if or_default False confirmed
              then marker BASE_NS_1_0 ''confirmed''
                   # leaf_if_given (or_default None timeout) BASE_NS_1_0 ''confirm-timeout''
                   @ leaf_if_given (or_default None persist) BASE_NS_1_0 ''persist''
              else [])
             @ leaf_if_truthy (or_default None persist_id) BASE_NS_1_0 ''persist-id''
             @ marker_if (or_default False no_deploy) TAILF_NS_NCS ''no-deploy''
             @ (case or_default None reconcile of
                  None \<Rightarrow> []
                | Some r \<Rightarrow> [Element (QName (Some TAILF_NS_NCS) ''reconcile'') None
                              [marker TAILF_NS_NCS r]])
             @ leaf_if_truthy (or_default None rollback_label) TAILF_NS_ROLLBACK ''label''
             @ leaf_if_truthy (or_default None rollback_comment) TAILF_NS_ROLLBACK ''comment''
             @ marker_if (or_default False with_transaction_id) TAILF_NS_WTI ''with-transaction-id''),
          None)"
proof (cases "or_default False confirmed")
  case True
  assume "'':candidate'' \<in> set caps"
    and "\<not> ((or_default False confirmed \<or> truthy (or_default None persist))
           \<and> truthy (or_default None persist_id))"
    and "or_default False confirmed \<longrightarrow> '':confirmed-commit'' \<in> set caps"
    and "\<forall>r. or_default None reconcile = Some r \<longrightarrow>
           r \<in> {''keep-non-service-config'', ''discard-non-service-config''}"
  with True show ?thesis
    by (cases "or_default None timeout"; cases "or_default None persist")
       (simp_all add: Commit_request_def assert_capability_def Let_def markup_defs
          add_service_commit_params_valid add_rollback_meta_data_children
          add_with_transaction_id_children)
next
  case False
  assume "'':candidate'' \<in> set caps"
    and "\<not> ((or_default False confirmed \<or> truthy (or_default None persist))
           \<and> truthy (or_default None persist_id))"
    and "or_default False confirmed \<longrightarrow> '':confirmed-commit'' \<in> set caps"
    and "\<forall>r. or_default None reconcile = Some r \<longrightarrow>
           r \<in> {''keep-non-service-config'', ''discard-non-service-config''}"
  with False show ?thesis
    by (cases "truthy (or_default None persist_id)")
       (simp_all add: Commit_request_def assert_capability_def Let_def markup_defs
          add_service_commit_params_valid add_rollback_meta_data_children
          add_with_transaction_id_children)
qed


lemma in_names_if:
  "x \<in> set (concat (map g (if b then ys else []))) \<longleftrightarrow> b \<and> x \<in> set (concat (map g ys))"
  by auto

lemma in_names_case:
  "x \<in> set (concat (map g (case v of None \<Rightarrow> [] | Some s \<Rightarrow> ys s))) \<longleftrightarrow>
     (\<exists>s. v = Some s \<and> x \<in> set (concat (map g (ys s))))"
  by (cases v) simp_all

lemma Commit_request_None:
  assumes "Commit_request caps confirmed timeout persist persist_id no_deploy reconcile
             rollback_label rollback_comment with_transaction_id = Inr (node, None)"
  shows "'':candidate'' \<in> set caps"
    and "\<not> ((or_default False confirmed \<or> truthy (or_default None persist))
           \<and> truthy (or_default None persist_id))"
    and "or_default False confirmed \<longrightarrow> '':confirmed-commit'' \<in> set caps"
    and "\<forall>r. or_default None reconcile = Some r \<longrightarrow>
           r \<in> {''keep-non-service-config'', ''discard-non-service-config''}"
proof -
  show c: "'':candidate'' \<in> set caps"
    using assms Commit_depends_missing [of caps] by fastforce
  show x: "\<not> ((or_default False confirmed \<or> truthy (or_default None persist))
           \<and> truthy (or_default None persist_id))"
    using assms c Commit_conflict [of caps confirmed persist persist_id] by fastforce
  show k: "or_default False confirmed \<longrightarrow> '':confirmed-commit'' \<in> set caps"
    using assms c x Commit_confirmed_commit_missing [of caps confirmed persist persist_id]
    by fastforce
  show "\<forall>r. or_default None reconcile = Some r \<longrightarrow>
           r \<in> {''keep-non-service-config'', ''discard-non-service-config''}"
  proof (intro allI impI, rule ccontr)
    fix r assume "or_default None reconcile = Some r"
      and "r \<notin> {''keep-non-service-config'', ''discard-non-service-config''}"
    from Commit_reconcile_invalid [OF c x k this] assms show False by simp
  qed
qed

lemma Commit_names:
  assumes "Commit_request caps confirmed timeout persist persist_id no_deploy reconcile
             rollback_label rollback_comment with_transaction_id = Inr (node, None)"
  shows "''confirmed'' \<in> set (desc_names node) \<longleftrightarrow> or_default False confirmed"
    and "''confirm-timeout'' \<in> set (desc_names node) \<longleftrightarrow>
           or_default False confirmed \<and> or_default None timeout \<noteq> None"
    and "''persist'' \<in> set (desc_names node) \<longleftrightarrow>
           or_default False confirmed \<and> or_default None persist \<noteq> None"
    and "''persist-id'' \<in> set (desc_names node) \<longleftrightarrow> truthy (or_default None persist_id)"
proof -
  note pre = Commit_request_None [OF assms]
  from Commit_builds [OF pre] assms
  have node: "node = Element (QName (Some BASE_NS_1_0) ''commit'') None
            ((if or_default False confirmed
              then marker BASE_NS_1_0 ''confirmed''
                   # leaf_if_given (or_default None timeout) BASE_NS_1_0 ''confirm-timeout''
                   @ leaf_if_given (or_default None persist) BASE_NS_1_0 ''persist''
              else [])
             @ leaf_if_truthy (or_default None persist_id) BASE_NS_1_0 ''persist-id''
             @ marker_if (or_default False no_deploy) TAILF_NS_NCS ''no-deploy''
             @ (case or_default None reconcile of
                  None \<Rightarrow> []
                | Some r \<Rightarrow> [Element (QName (Some TAILF_NS_NCS) ''reconcile'') None
                              [marker TAILF_NS_NCS r]])
             @ leaf_if_truthy (or_default None rollback_label) TAILF_NS_ROLLBACK ''label''
             @ leaf_if_truthy (or_default None rollback_comment) TAILF_NS_ROLLBACK ''comment''
             @ marker_if (or_default False with_transaction_id) TAILF_NS_WTI ''with-transaction-id'')"
    by simp
  have r: "\<And>s. or_default None reconcile = Some s \<Longrightarrow>
             s = ''keep-non-service-config'' \<or> s = ''discard-non-service-config''"
    using pre(4) by simp
  show "''confirmed'' \<in> set (desc_names node) \<longleftrightarrow> or_default False confirmed"
    unfolding node using r by (auto simp add: in_names_if in_names_case simp del: set_concat)
  show "''confirm-timeout'' \<in> set (desc_names node) \<longleftrightarrow>
           or_default False confirmed \<and> or_default None timeout \<noteq> None"
    unfolding node using r by (auto simp add: in_names_if in_names_case simp del: set_concat)
  show "''persist'' \<in> set (desc_names node) \<longleftrightarrow>
           or_default False confirmed \<and> or_default None persist \<noteq> None"
    unfolding node using r by (auto simp add: in_names_if in_names_case simp del: set_concat)
  show "''persist-id'' \<in> set (desc_names node) \<longleftrightarrow> truthy (or_default None persist_id)"
    unfolding node using r by (auto simp add: in_names_if in_names_case simp del: set_concat)
qed

text \<open>
  C3. On a session that advertises \<open>:candidate\<close> (without it no \<open>Commit\<close> can be
  created at all), \<open>Commit\<close> raises the \<open>OperationError\<close> of its mutual-exclusion
  rule, the spec's InvalidArgument, exactly when \<open>persist_id\<close> is set together with
  \<open>confirmed\<close> true or \<open>persist\<close> set; in every other case that error is not
  raised, whatever else happens. And whatever the session, no request that \<open>Commit\<close>
  hands over contains a \<open>persist-id\<close> element together with a \<open>confirmed\<close> or a
  \<open>persist\<close> element. An argument is set in the sense of Python's truth value, which
  is the test of the code and the "present" of section 4.1 of the spec: \<open>None\<close> and the
  empty string are not set.
\<close>

theorem Commit_persist_id_exclusive:
  "('':candidate'' \<in> set caps \<longrightarrow>
      ((\<exists>node. Commit_request caps confirmed timeout persist persist_id no_deploy reconcile
                 rollback_label rollback_comment with_transaction_id =
               Inr (node, Some (OperationError
                 ''Invalid operation as confirmed or persist cannot be present with persist-id'')))
       \<longleftrightarrow> (or_default False confirmed \<or> truthy (or_default None persist))
             \<and> truthy (or_default None persist_id)))
   \<and> (\<forall>node. Commit_request caps confirmed timeout persist persist_id no_deploy reconcile
                 rollback_label rollback_comment with_transaction_id = Inr (node, None) \<longrightarrow>
          \<not> (''persist-id'' \<in> set (desc_names node)
               \<and> (''confirmed'' \<in> set (desc_names node) \<or> ''persist'' \<in> set (desc_names node))))"
proof (intro conjI impI allI)
  assume c: "'':candidate'' \<in> set caps"
  let ?conflict = "(or_default False confirmed \<or> truthy (or_default None persist))
             \<and> truthy (or_default None persist_id)"
  let ?r = "Commit_request caps confirmed timeout persist persist_id no_deploy reconcile
                 rollback_label rollback_comment with_transaction_id"
  let ?e = "OperationError
                 ''Invalid operation as confirmed or persist cannot be present with persist-id''"
  show "(\<exists>node. ?r = Inr (node, Some ?e)) \<longleftrightarrow> ?conflict"
  proof
    assume "?conflict"
    with c show "\<exists>node. ?r = Inr (node, Some ?e)"
      using Commit_conflict [of caps confirmed persist persist_id] by blast
  next
    assume raised: "\<exists>node. ?r = Inr (node, Some ?e)"
    show "?conflict"
    proof (rule ccontr)
      assume x: "\<not> ?conflict"
      show False
      proof (cases "or_default False confirmed \<and> '':confirmed-commit'' \<notin> set caps")
        case True
        with Commit_confirmed_commit_missing [OF c x] raised show False by auto
      next
        case False
        then have k: "or_default False confirmed \<longrightarrow> '':confirmed-commit'' \<in> set caps" by blast
        show False
        proof (cases "\<forall>r. or_default None reconcile = Some r \<longrightarrow>
                 r \<in> {''keep-non-service-config'', ''discard-non-service-config''}")
          case True
          from Commit_builds [OF c x k True] raised show False by auto
        next
          case False
          then obtain r where "or_default None reconcile = Some r"
            and "r \<notin> {''keep-non-service-config'', ''discard-non-service-config''}" by blast
          from Commit_reconcile_invalid [OF c x k this] raised show False by auto
        qed
      qed
    qed
  qed
next
  fix node
  assume "Commit_request caps confirmed timeout persist persist_id no_deploy reconcile
            rollback_label rollback_comment with_transaction_id = Inr (node, None)"
  from Commit_names [OF this] Commit_request_None(2) [OF this]
  show "\<not> (''persist-id'' \<in> set (desc_names node)
               \<and> (''confirmed'' \<in> set (desc_names node) \<or> ''persist'' \<in> set (desc_names node)))"
    by blast
qed

theorem Commit_persist_id_exclusive_witness:
  "(\<exists>node. Commit_request ['':candidate'', '':confirmed-commit''] (Given True) Omitted Omitted
             (Given (Some ''tok'')) Omitted Omitted Omitted Omitted Omitted =
           Inr (node, Some (OperationError
             ''Invalid operation as confirmed or persist cannot be present with persist-id'')))
   \<and> Commit_request ['':candidate''] Omitted Omitted Omitted (Given (Some ''tok''))
        Omitted Omitted Omitted Omitted Omitted =
       Inr (Element (QName (Some BASE_NS_1_0) ''commit'') None
              [Element (QName (Some BASE_NS_1_0) ''persist-id'') (Some ''tok'') []], None)
   \<and> \<not> (''persist-id'' \<in> set (desc_names (Element (QName (Some BASE_NS_1_0) ''commit'') None
              [Element (QName (Some BASE_NS_1_0) ''persist-id'') (Some ''tok'') []]))
         \<and> (''confirmed'' \<in> set (desc_names (Element (QName (Some BASE_NS_1_0) ''commit'') None
              [Element (QName (Some BASE_NS_1_0) ''persist-id'') (Some ''tok'') []]))
            \<or> ''persist'' \<in> set (desc_names (Element (QName (Some BASE_NS_1_0) ''commit'') None
              [Element (QName (Some BASE_NS_1_0) ''persist-id'') (Some ''tok'') []]))))"
proof -
  have built: "Commit_request ['':candidate''] Omitted Omitted Omitted (Given (Some ''tok''))
        Omitted Omitted Omitted Omitted Omitted =
       Inr (Element (QName (Some BASE_NS_1_0) ''commit'') None
              [Element (QName (Some BASE_NS_1_0) ''persist-id'') (Some ''tok'') []], None)"
    by (simp add: Commit_request_def add_service_commit_params_def add_rollback_meta_data_def
        add_with_transaction_id_def markup_defs Let_def)
  from built
    Commit_persist_id_exclusive
      [where caps = "['':candidate'', '':confirmed-commit'']" and confirmed = "Given True"
         and timeout = Omitted and persist = Omitted and persist_id = "Given (Some ''tok'')"
         and no_deploy = Omitted and reconcile = Omitted and rollback_label = Omitted
         and rollback_comment = Omitted and with_transaction_id = Omitted]
    Commit_persist_id_exclusive
      [where caps = "['':candidate'']" and confirmed = Omitted
         and timeout = Omitted and persist = Omitted and persist_id = "Given (Some ''tok'')"
         and no_deploy = Omitted and reconcile = Omitted and rollback_label = Omitted
         and rollback_comment = Omitted and with_transaction_id = Omitted]
  show ?thesis by simp
qed

text \<open>
  C10, as the spec states it, fails: \<open>persist\<close> is not ignored when \<open>confirmed\<close> is
  false. The mutual-exclusion rule reads \<open>(confirmed or persist) and persist_id\<close>, so
  with \<open>confirmed\<close> false a \<open>persist\<close> token next to a \<open>persist_id\<close> makes the
  call raise, where the same call without \<open>persist\<close> hands over a request.
\<close>

theorem Commit_unconfirmed_persist_counterexample:
  "Commit_request ['':candidate''] (Given False) Omitted (Given (Some ''tok'')) (Given (Some ''id''))
       Omitted Omitted Omitted Omitted Omitted =
     Inr (Element (QName (Some BASE_NS_1_0) ''commit'') None [],
          Some (OperationError
            ''Invalid operation as confirmed or persist cannot be present with persist-id''))
   \<and> Commit_request ['':candidate''] (Given False) Omitted Omitted (Given (Some ''id''))
       Omitted Omitted Omitted Omitted Omitted =
     Inr (Element (QName (Some BASE_NS_1_0) ''commit'') None
            [Element (QName (Some BASE_NS_1_0) ''persist-id'') (Some ''id'') []], None)"
  by (simp add: Commit_request_def add_service_commit_params_def add_rollback_meta_data_def
      add_with_transaction_id_def markup_defs Let_def)

text \<open>
  C10, amended. For every \<open>Commit\<close> call with \<open>confirmed\<close> false, a request that is
  handed over contains no \<open>confirmed\<close>, \<open>confirm-timeout\<close> or \<open>persist\<close> element;
  \<open>timeout\<close> is ignored altogether (the outcome is the same for every value of it);
  and \<open>persist\<close> is ignored unless \<open>persist_id\<close> is set: the outcome depends on
  \<open>persist\<close> only through whether it is set, and only when \<open>persist_id\<close> is set
  too, in which case the call raises \<open>OperationError\<close>.
\<close>

theorem Commit_unconfirmed_ignores_timeout:
  "\<not> or_default False confirmed \<longrightarrow>
     (\<forall>node. Commit_request caps confirmed timeout persist persist_id no_deploy reconcile
                rollback_label rollback_comment with_transaction_id = Inr (node, None) \<longrightarrow>
         ''confirmed'' \<notin> set (desc_names node)
         \<and> ''confirm-timeout'' \<notin> set (desc_names node)
         \<and> ''persist'' \<notin> set (desc_names node))
     \<and> Commit_request caps confirmed timeout persist persist_id no_deploy reconcile
           rollback_label rollback_comment with_transaction_id =
         Commit_request caps confirmed timeout_b persist persist_id no_deploy reconcile
           rollback_label rollback_comment with_transaction_id
     \<and> ((truthy (or_default None persist_id) \<longrightarrow>
            truthy (or_default None persist) = truthy (or_default None persist_b)) \<longrightarrow>
         Commit_request caps confirmed timeout persist persist_id no_deploy reconcile
           rollback_label rollback_comment with_transaction_id =
         Commit_request caps confirmed timeout persist_b persist_id no_deploy reconcile
           rollback_label rollback_comment with_transaction_id)
     \<and> ('':candidate'' \<in> set caps \<and> truthy (or_default None persist)
           \<and> truthy (or_default None persist_id) \<longrightarrow>
         Commit_request caps confirmed timeout persist persist_id no_deploy reconcile
           rollback_label rollback_comment with_transaction_id =
         Inr (Element (QName (Some BASE_NS_1_0) ''commit'') None [],
              Some (OperationError
                ''Invalid operation as confirmed or persist cannot be present with persist-id'')))"
proof (intro conjI impI allI; (elim conjE)?)
  fix node
  assume u: "\<not> or_default False confirmed"
    and "Commit_request caps confirmed timeout persist persist_id no_deploy reconcile
           rollback_label rollback_comment with_transaction_id = Inr (node, None)"
  from Commit_names(1-3) [OF this(2)] u
  show "''confirmed'' \<notin> set (desc_names node)"
    and "''confirm-timeout'' \<notin> set (desc_names node)"
    and "''persist'' \<notin> set (desc_names node)"
    by blast+
next
  assume "\<not> or_default False confirmed"
  then show "Commit_request caps confirmed timeout persist persist_id no_deploy reconcile
           rollback_label rollback_comment with_transaction_id =
         Commit_request caps confirmed timeout_b persist persist_id no_deploy reconcile
           rollback_label rollback_comment with_transaction_id"
    by (simp add: Commit_request_def Let_def)
next
  assume "\<not> or_default False confirmed"
    and "truthy (or_default None persist_id) \<longrightarrow>
            truthy (or_default None persist) = truthy (or_default None persist_b)"
  then show "Commit_request caps confirmed timeout persist persist_id no_deploy reconcile
           rollback_label rollback_comment with_transaction_id =
         Commit_request caps confirmed timeout persist_b persist_id no_deploy reconcile
           rollback_label rollback_comment with_transaction_id"
    by (cases "truthy (or_default None persist_id)") (simp_all add: Commit_request_def Let_def)
next
  assume "'':candidate'' \<in> set caps" "truthy (or_default None persist)"
    "truthy (or_default None persist_id)"
  then show "Commit_request caps confirmed timeout persist persist_id no_deploy reconcile
           rollback_label rollback_comment with_transaction_id =
         Inr (Element (QName (Some BASE_NS_1_0) ''commit'') None [],
              Some (OperationError
                ''Invalid operation as confirmed or persist cannot be present with persist-id''))"
    using Commit_conflict [of caps confirmed persist persist_id] by simp
qed

theorem Commit_unconfirmed_ignores_timeout_witness:
  "Commit_request ['':candidate''] (Given False) (Given (Some ''60'')) (Given (Some ''tok'')) Omitted
       (Given True) Omitted Omitted Omitted Omitted =
     Inr (Element (QName (Some BASE_NS_1_0) ''commit'') None
            [Element (QName (Some TAILF_NS_NCS) ''no-deploy'') None []], None)
   \<and> ''confirmed'' \<notin> set (desc_names (Element (QName (Some BASE_NS_1_0) ''commit'') None
            [Element (QName (Some TAILF_NS_NCS) ''no-deploy'') None []]))
   \<and> ''confirm-timeout'' \<notin> set (desc_names (Element (QName (Some BASE_NS_1_0) ''commit'') None
            [Element (QName (Some TAILF_NS_NCS) ''no-deploy'') None []]))
   \<and> ''persist'' \<notin> set (desc_names (Element (QName (Some BASE_NS_1_0) ''commit'') None
            [Element (QName (Some TAILF_NS_NCS) ''no-deploy'') None []]))
   \<and> Commit_request ['':candidate''] (Given False) (Given (Some ''60'')) (Given (Some ''tok'')) Omitted
       (Given True) Omitted Omitted Omitted Omitted =
     Commit_request ['':candidate''] (Given False) Omitted (Given (Some ''tok'')) Omitted
       (Given True) Omitted Omitted Omitted Omitted
   \<and> Commit_request ['':candidate''] (Given False) (Given (Some ''60'')) (Given (Some ''tok'')) Omitted
       (Given True) Omitted Omitted Omitted Omitted =
     Commit_request ['':candidate''] (Given False) (Given (Some ''60'')) Omitted Omitted
       (Given True) Omitted Omitted Omitted Omitted
   \<and> Commit_request ['':candidate''] (Given False) (Given (Some ''60'')) (Given (Some ''tok''))
       (Given (Some ''id'')) (Given True) Omitted Omitted Omitted Omitted =
     Inr (Element (QName (Some BASE_NS_1_0) ''commit'') None [],
          Some (OperationError
            ''Invalid operation as confirmed or persist cannot be present with persist-id''))"
proof -
  have built: "Commit_request ['':candidate''] (Given False) (Given (Some ''60''))
       (Given (Some ''tok'')) Omitted (Given True) Omitted Omitted Omitted Omitted =
     Inr (Element (QName (Some BASE_NS_1_0) ''commit'') None
            [Element (QName (Some TAILF_NS_NCS) ''no-deploy'') None []], None)"
    by (simp add: Commit_request_def add_service_commit_params_def add_rollback_meta_data_def
        add_with_transaction_id_def markup_defs Let_def)
  note free = Commit_unconfirmed_ignores_timeout
      [where caps = "['':candidate'']" and confirmed = "Given False"
         and timeout = "Given (Some ''60'')" and timeout_b = Omitted
         and persist = "Given (Some ''tok'')" and persist_b = Omitted and persist_id = Omitted
         and no_deploy = "Given True" and reconcile = Omitted and rollback_label = Omitted
         and rollback_comment = Omitted and with_transaction_id = Omitted]
  note clash = Commit_unconfirmed_ignores_timeout
      [where caps = "['':candidate'']" and confirmed = "Given False"
         and timeout = "Given (Some ''60'')" and timeout_b = Omitted
         and persist = "Given (Some ''tok'')" and persist_b = Omitted
         and persist_id = "Given (Some ''id'')"
         and no_deploy = "Given True" and reconcile = Omitted and rollback_label = Omitted
         and rollback_comment = Omitted and with_transaction_id = Omitted]
  have u: "\<not> or_default False (Given False)" by simp
  note f = free [THEN mp, OF u]
  note c = clash [THEN mp, OF u]
  show ?thesis
    apply (intro conjI)
    subgoal by (rule built)
    subgoal using f [THEN conjunct1] built by simp
    subgoal using f [THEN conjunct1] built by simp
    subgoal using f [THEN conjunct1] built by simp
    subgoal using f [THEN conjunct2, THEN conjunct1] by simp
    subgoal using f [THEN conjunct2, THEN conjunct2, THEN conjunct1] by simp
    subgoal using c [THEN conjunct2, THEN conjunct2, THEN conjunct2] by simp
    done
qed

subsection \<open>EditConfig\<close>

lemma EditConfig_builds_xml:
  "ds_or_url ''target'' (Str (or_default ''candidate'' target)) (assert_capability caps) = Inr t \<Longrightarrow>
   (or_default None test_option \<noteq> None \<longrightarrow> '':validate'' \<in> set caps) \<Longrightarrow>
   (or_default None error_option = Some ''rollback-on-error'' \<longrightarrow>
      '':rollback-on-error'' \<in> set caps) \<Longrightarrow>
   (\<forall>r. or_default None reconcile = Some r \<longrightarrow>
        r \<in> {''keep-non-service-config'', ''discard-non-service-config''}) \<Longrightarrow>
   or_default ''xml'' format = ''xml'' \<Longrightarrow>
   valid_ele config [QName None ''config'', QName (Some BASE_NS_1_0) ''config''] = Inr c \<Longrightarrow>
   EditConfig_request ds_or_url valid_ele caps config format target default_operation
       test_option error_option no_deploy reconcile rollback_label rollback_comment
       with_transaction_id with_inactive =
     (Element (QName (Some BASE_NS_1_0) ''edit-config'') None
        (t # leaf_if_given (or_default None default_operation) BASE_NS_1_0 ''default-operation''
           @ leaf_if_given (or_default None test_option) BASE_NS_1_0 ''test-option''
           @ leaf_if_given (or_default None error_option) BASE_NS_1_0 ''error-option''
           @ marker_if (or_default False no_deploy) TAILF_NS_NCS ''no-deploy''
           @ (case or_default None reconcile of
                None \<Rightarrow> []
              | Some r \<Rightarrow> [Element (QName (Some TAILF_NS_NCS) ''reconcile'') None
                            [marker TAILF_NS_NCS r]])
           @ leaf_if_truthy (or_default None rollback_label) TAILF_NS_ROLLBACK ''label''
           @ leaf_if_truthy (or_default None rollback_comment) TAILF_NS_ROLLBACK ''comment''
           @ marker_if (or_default False with_transaction_id) TAILF_NS_WTI ''with-transaction-id''
           @ marker_if (or_default False with_inactive) TAILF_NS_INACTIVE ''with-inactive''
           @ [Element (QName (Some BASE_NS_1_0) ''config'') (text_of c) (children c)]),
      None)"
  by (simp add: EditConfig_request_def try_append_def Let_def new_ele_def new_ele_ns_def qualify_def
      set_tag_def step_leaf step_checked_leaf step_guarded_leaf add_service_commit_params_valid
      add_rollback_meta_data_children add_with_transaction_id_children add_with_inactive_children)

lemma text_carrier:
  "on_last (on_last (set_text s))
     (on_last (\<lambda>config_text. sub_ele config_text ''configuration-text'')
        (sub_ele (Element q x cs) ''config-text'')) =
   Element q x (cs @ [Element (QName (Some BASE_NS_1_0) ''config-text'') None
                        [leaf BASE_NS_1_0 ''configuration-text'' s]])"
  by (simp add: markup_defs)

lemma EditConfig_builds_text:
  "ds_or_url ''target'' (Str (or_default ''candidate'' target)) (assert_capability caps) = Inr t \<Longrightarrow>
   (or_default None test_option \<noteq> None \<longrightarrow> '':validate'' \<in> set caps) \<Longrightarrow>
   (or_default None error_option = Some ''rollback-on-error'' \<longrightarrow>
      '':rollback-on-error'' \<in> set caps) \<Longrightarrow>
   (\<forall>r. or_default None reconcile = Some r \<longrightarrow>
        r \<in> {''keep-non-service-config'', ''discard-non-service-config''}) \<Longrightarrow>
   or_default ''xml'' format = ''text'' \<Longrightarrow>
   EditConfig_request ds_or_url valid_ele caps (Str s) format target default_operation
       test_option error_option no_deploy reconcile rollback_label rollback_comment
       with_transaction_id with_inactive =
     (Element (QName (Some BASE_NS_1_0) ''edit-config'') None
        (t # leaf_if_given (or_default None default_operation) BASE_NS_1_0 ''default-operation''
           @ leaf_if_given (or_default None test_option) BASE_NS_1_0 ''test-option''
           @ leaf_if_given (or_default None error_option) BASE_NS_1_0 ''error-option''
           @ marker_if (or_default False no_deploy) TAILF_NS_NCS ''no-deploy''
           @ (case or_default None reconcile of
                None \<Rightarrow> []
              | Some r \<Rightarrow> [Element (QName (Some TAILF_NS_NCS) ''reconcile'') None
                            [marker TAILF_NS_NCS r]])
           @ leaf_if_truthy (or_default None rollback_label) TAILF_NS_ROLLBACK ''label''
           @ leaf_if_truthy (or_default None rollback_comment) TAILF_NS_ROLLBACK ''comment''
           @ marker_if (or_default False with_transaction_id) TAILF_NS_WTI ''with-transaction-id''
           @ marker_if (or_default False with_inactive) TAILF_NS_INACTIVE ''with-inactive''
           @ [Element (QName (Some BASE_NS_1_0) ''config-text'') None
                [leaf BASE_NS_1_0 ''configuration-text'' s]]),
      None)"
  by (simp add: EditConfig_request_def try_append_def Let_def new_ele_def new_ele_ns_def qualify_def
      text_carrier step_leaf step_checked_leaf step_guarded_leaf add_service_commit_params_valid
      add_rollback_meta_data_children add_with_transaction_id_children add_with_inactive_children)

lemma EditConfig_text_not_string:
  "ds_or_url ''target'' (Str (or_default ''candidate'' target)) (assert_capability caps) = Inr t \<Longrightarrow>
   (or_default None test_option \<noteq> None \<longrightarrow> '':validate'' \<in> set caps) \<Longrightarrow>
   (or_default None error_option = Some ''rollback-on-error'' \<longrightarrow>
      '':rollback-on-error'' \<in> set caps) \<Longrightarrow>
   (\<forall>r. or_default None reconcile = Some r \<longrightarrow>
        r \<in> {''keep-non-service-config'', ''discard-non-service-config''}) \<Longrightarrow>
   or_default ''xml'' format = ''text'' \<Longrightarrow>
   snd (EditConfig_request ds_or_url valid_ele caps (Ele x) format target default_operation
       test_option error_option no_deploy reconcile rollback_label rollback_comment
       with_transaction_id with_inactive) = Some (TypeError ''text must be a string'')"
  by (simp add: EditConfig_request_def try_append_def Let_def new_ele_def new_ele_ns_def qualify_def
      step_leaf step_checked_leaf step_guarded_leaf add_service_commit_params_valid
      add_rollback_meta_data_children add_with_transaction_id_children add_with_inactive_children)

lemma EditConfig_no_capability_error:
  assumes t: "ds_or_url ''target'' (Str (or_default ''candidate'' target)) (assert_capability caps) = Inr t"
    and v: "or_default None test_option \<noteq> None \<longrightarrow> '':validate'' \<in> set caps"
    and e: "or_default None error_option = Some ''rollback-on-error'' \<longrightarrow>
              '':rollback-on-error'' \<in> set caps"
    and p: "\<forall>c. valid_ele config [QName None ''config'', QName (Some BASE_NS_1_0) ''config'']
              \<noteq> Inl (UnsupportedCapability c)"
  shows "snd (EditConfig_request ds_or_url valid_ele caps config format target default_operation
           test_option error_option no_deploy reconcile rollback_label rollback_comment
           with_transaction_id with_inactive) \<noteq> Some (UnsupportedCapability c)"
proof (cases "\<forall>r. or_default None reconcile = Some r \<longrightarrow>
                r \<in> {''keep-non-service-config'', ''discard-non-service-config''}")
  case False
  then obtain r where "or_default None reconcile = Some r"
    and "r \<notin> {''keep-non-service-config'', ''discard-non-service-config''}" by blast
  from EditConfig_reconcile_invalid [where ds_or_url = ds_or_url and valid_ele = valid_ele, OF t v e this] show ?thesis by simp
next
  case r: True
  consider (is_xml) "or_default ''xml'' format = ''xml''"
    | (is_text) "or_default ''xml'' format = ''text''"
    | (neither) "or_default ''xml'' format \<noteq> ''xml''" "or_default ''xml'' format \<noteq> ''text''"
    by blast
  then show ?thesis
  proof cases
    case is_xml
    show ?thesis
    proof (cases "valid_ele config [QName None ''config'', QName (Some BASE_NS_1_0) ''config'']")
      case (Inl err)
      from EditConfig_rejects_config [where ds_or_url = ds_or_url and valid_ele = valid_ele, OF t v e r is_xml Inl] p Inl show ?thesis by auto
    next
      case (Inr c)
      from EditConfig_builds_xml [where ds_or_url = ds_or_url and valid_ele = valid_ele, OF t v e r is_xml Inr] show ?thesis by simp
    qed
  next
    case is_text
    show ?thesis
    proof (cases config)
      case (Str s)
      from EditConfig_builds_text [where ds_or_url = ds_or_url and valid_ele = valid_ele, OF t v e r is_text] Str show ?thesis by simp
    next
      case (Ele x)
      from EditConfig_text_not_string [where ds_or_url = ds_or_url and valid_ele = valid_ele, OF t v e r is_text] Ele show ?thesis by simp
    qed
  next
    case neither
    from EditConfig_returns [where ds_or_url = ds_or_url and valid_ele = valid_ele, OF t v e r] neither show ?thesis by simp
  qed
qed

text \<open>
  C4. When the steps of \<open>EditConfig\<close> that come before the payload pass (the target
  encodes, the capabilities asked for are advertised, \<open>reconcile\<close> is valid), a call
  with \<open>format="text"\<close> and the payload string \<open>s\<close> hands over a request whose last
  child is a \<open>config-text\<close> element with the single child \<open>configuration-text\<close>,
  which holds \<open>s\<close> verbatim; and a call in the xml format whose payload
  \<open>validated_element\<close> accepts as rooted at \<open>config\<close>, with or without the base
  namespace, hands over a request whose last child is that payload with its root
  re-tagged to \<open>config\<close> in the base namespace, text and children unchanged. The
  children before the payload are those of the options, in the order of the code.
\<close>

theorem EditConfig_payload:
  "ds_or_url ''target'' (Str (or_default ''candidate'' target)) (assert_capability caps) = Inr t
   \<and> (or_default None test_option \<noteq> None \<longrightarrow> '':validate'' \<in> set caps)
   \<and> (or_default None error_option = Some ''rollback-on-error'' \<longrightarrow>
        '':rollback-on-error'' \<in> set caps)
   \<and> (\<forall>r. or_default None reconcile = Some r \<longrightarrow>
          r \<in> {''keep-non-service-config'', ''discard-non-service-config''}) \<longrightarrow>
   (or_default ''xml'' format = ''text'' \<longrightarrow>
      EditConfig_request ds_or_url valid_ele caps (Str s) format target default_operation
          test_option error_option no_deploy reconcile rollback_label rollback_comment
          with_transaction_id with_inactive =
        (Element (QName (Some BASE_NS_1_0) ''edit-config'') None
           (t # leaf_if_given (or_default None default_operation) BASE_NS_1_0 ''default-operation''
              @ leaf_if_given (or_default None test_option) BASE_NS_1_0 ''test-option''
              @ leaf_if_given (or_default None error_option) BASE_NS_1_0 ''error-option''
              @ marker_if (or_default False no_deploy) TAILF_NS_NCS ''no-deploy''
              @ (case or_default None reconcile of
                   None \<Rightarrow> []
                 | Some r \<Rightarrow> [Element (QName (Some TAILF_NS_NCS) ''reconcile'') None
                               [marker TAILF_NS_NCS r]])
              @ leaf_if_truthy (or_default None rollback_label) TAILF_NS_ROLLBACK ''label''
              @ leaf_if_truthy (or_default None rollback_comment) TAILF_NS_ROLLBACK ''comment''
              @ marker_if (or_default False with_transaction_id) TAILF_NS_WTI ''with-transaction-id''
              @ marker_if (or_default False with_inactive) TAILF_NS_INACTIVE ''with-inactive''
              @ [Element (QName (Some BASE_NS_1_0) ''config-text'') None
                   [Element (QName (Some BASE_NS_1_0) ''configuration-text'') (Some s) []]]),
         None))
   \<and> (or_default ''xml'' format = ''xml''
        \<and> valid_ele config [QName None ''config'', QName (Some BASE_NS_1_0) ''config''] = Inr c \<longrightarrow>
      EditConfig_request ds_or_url valid_ele caps config format target default_operation
          test_option error_option no_deploy reconcile rollback_label rollback_comment
          with_transaction_id with_inactive =
        (Element (QName (Some BASE_NS_1_0) ''edit-config'') None
           (t # leaf_if_given (or_default None default_operation) BASE_NS_1_0 ''default-operation''
              @ leaf_if_given (or_default None test_option) BASE_NS_1_0 ''test-option''
              @ leaf_if_given (or_default None error_option) BASE_NS_1_0 ''error-option''
              @ marker_if (or_default False no_deploy) TAILF_NS_NCS ''no-deploy''
              @ (case or_default None reconcile of
                   None \<Rightarrow> []
                 | Some r \<Rightarrow> [Element (QName (Some TAILF_NS_NCS) ''reconcile'') None
                               [marker TAILF_NS_NCS r]])
              @ leaf_if_truthy (or_default None rollback_label) TAILF_NS_ROLLBACK ''label''
              @ leaf_if_truthy (or_default None rollback_comment) TAILF_NS_ROLLBACK ''comment''
              @ marker_if (or_default False with_transaction_id) TAILF_NS_WTI ''with-transaction-id''
              @ marker_if (or_default False with_inactive) TAILF_NS_INACTIVE ''with-inactive''
              @ [Element (QName (Some BASE_NS_1_0) ''config'') (text_of c) (children c)]),
         None))"
  apply (intro conjI impI; (elim conjE)?)
  subgoal by (rule EditConfig_builds_text; assumption)
  subgoal by (rule EditConfig_builds_xml; assumption)
  done

theorem EditConfig_payload_witness:
  "EditConfig_request datastore_or_url (validated_element no_parser) []
       (Str ''interfaces { ethernet 1 { enabled; } }'') (Given ''text'') Omitted Omitted Omitted
       Omitted Omitted Omitted Omitted Omitted Omitted Omitted =
     (Element (QName (Some BASE_NS_1_0) ''edit-config'') None
        [Element (QName (Some BASE_NS_1_0) ''target'') None
           [Element (QName (Some BASE_NS_1_0) ''candidate'') None []],
         Element (QName (Some BASE_NS_1_0) ''config-text'') None
           [Element (QName (Some BASE_NS_1_0) ''configuration-text'')
              (Some ''interfaces { ethernet 1 { enabled; } }'') []]],
      None)
   \<and> EditConfig_request datastore_or_url (validated_element no_parser) []
       (Ele (Element (QName None ''config'') None
               [Element (QName (Some TAILF_NS_NCS) ''devices'') None []]))
       Omitted Omitted Omitted Omitted Omitted Omitted Omitted Omitted Omitted Omitted Omitted =
     (Element (QName (Some BASE_NS_1_0) ''edit-config'') None
        [Element (QName (Some BASE_NS_1_0) ''target'') None
           [Element (QName (Some BASE_NS_1_0) ''candidate'') None []],
         Element (QName (Some BASE_NS_1_0) ''config'') None
           [Element (QName (Some TAILF_NS_NCS) ''devices'') None []]],
      None)"
  apply (intro conjI)
  subgoal
    using EditConfig_payload
      [where ds_or_url = datastore_or_url and valid_ele = "validated_element no_parser"
         and caps = "[]" and s = "''interfaces { ethernet 1 { enabled; } }''"
         and format = "Given ''text''" and target = Omitted and default_operation = Omitted
         and test_option = Omitted and error_option = Omitted and no_deploy = Omitted
         and reconcile = Omitted and rollback_label = Omitted and rollback_comment = Omitted
         and with_transaction_id = Omitted and with_inactive = Omitted
         and config = "Ele (Element (QName None ''config'') None [])"
         and c = "Element (QName None ''config'') None []"
         and t = "Element (QName (Some BASE_NS_1_0) ''target'') None
                    [Element (QName (Some BASE_NS_1_0) ''candidate'') None []]"]
    by (simp add: datastore_or_url_def markup_defs)
  subgoal
    using EditConfig_payload
      [where ds_or_url = datastore_or_url and valid_ele = "validated_element no_parser"
         and caps = "[]" and s = "''''"
         and format = Omitted and target = Omitted and default_operation = Omitted
         and test_option = Omitted and error_option = Omitted and no_deploy = Omitted
         and reconcile = Omitted and rollback_label = Omitted and rollback_comment = Omitted
         and with_transaction_id = Omitted and with_inactive = Omitted
         and config = "Ele (Element (QName None ''config'') None
                             [Element (QName (Some TAILF_NS_NCS) ''devices'') None []])"
         and c = "Element (QName None ''config'') None
                    [Element (QName (Some TAILF_NS_NCS) ''devices'') None []]"
         and t = "Element (QName (Some BASE_NS_1_0) ''target'') None
                    [Element (QName (Some BASE_NS_1_0) ''candidate'') None []]"]
    by (simp add: datastore_or_url_def validated_element_def markup_defs)
  done

text \<open>
  C9, as the spec states it, fails, because the two capability checks run one after the
  other and each reports its own capability. With \<open>test_option\<close> given on a session
  that does advertise \<open>:validate\<close>, the call still raises \<open>UnsupportedCapability\<close>
  when \<open>error_option\<close> is \<open>rollback-on-error\<close> and \<open>:rollback-on-error\<close> is
  missing; and on a session that advertises neither, the same call raises for
  \<open>:validate\<close> and never reaches the \<open>:rollback-on-error\<close> check.
\<close>

theorem EditConfig_capability_counterexample:
  "EditConfig_request datastore_or_url (validated_element no_parser) ['':validate'']
       (Ele (Element (QName None ''config'') None [])) Omitted Omitted Omitted
       (Given (Some ''set'')) (Given (Some ''rollback-on-error''))
       Omitted Omitted Omitted Omitted Omitted Omitted =
     (Element (QName (Some BASE_NS_1_0) ''edit-config'') None
        [Element (QName (Some BASE_NS_1_0) ''target'') None
           [Element (QName (Some BASE_NS_1_0) ''candidate'') None []],
         Element (QName (Some BASE_NS_1_0) ''test-option'') (Some ''set'') []],
      Some (UnsupportedCapability '':rollback-on-error''))
   \<and> EditConfig_request datastore_or_url (validated_element no_parser) []
       (Ele (Element (QName None ''config'') None [])) Omitted Omitted Omitted
       (Given (Some ''set'')) (Given (Some ''rollback-on-error''))
       Omitted Omitted Omitted Omitted Omitted Omitted =
     (Element (QName (Some BASE_NS_1_0) ''edit-config'') None
        [Element (QName (Some BASE_NS_1_0) ''target'') None
           [Element (QName (Some BASE_NS_1_0) ''candidate'') None []]],
      Some (UnsupportedCapability '':validate''))"
  by (simp add: EditConfig_request_def datastore_or_url_def try_append_def assert_capability_def
      markup_defs Let_def)

text \<open>
  C9, amended. Provided the target encodes (and \<open>validated_element\<close>, which is given
  no capability checker, raises no \<open>UnsupportedCapability\<close> of its own):
  \<open>EditConfig\<close> with a \<open>test_option\<close> other than \<open>None\<close> raises
  \<open>UnsupportedCapability\<close> for \<open>:validate\<close> if and only if the session lacks
  \<open>:validate\<close>; when that check passes or is not made, \<open>EditConfig\<close> with
  \<open>error_option="rollback-on-error"\<close> raises \<open>UnsupportedCapability\<close> for
  \<open>:rollback-on-error\<close> if and only if the session lacks \<open>:rollback-on-error\<close>;
  and with any other \<open>error_option\<close>, or none, no capability error is raised.
\<close>

theorem EditConfig_capability_checks:
  "ds_or_url ''target'' (Str (or_default ''candidate'' target)) (assert_capability caps) = Inr t
   \<and> (\<forall>c. valid_ele config [QName None ''config'', QName (Some BASE_NS_1_0) ''config'']
          \<noteq> Inl (UnsupportedCapability c)) \<longrightarrow>
   (or_default None test_option \<noteq> None \<longrightarrow>
      (snd (EditConfig_request ds_or_url valid_ele caps config format target default_operation
              test_option error_option no_deploy reconcile rollback_label rollback_comment
              with_transaction_id with_inactive) = Some (UnsupportedCapability '':validate'')
       \<longleftrightarrow> '':validate'' \<notin> set caps))
   \<and> ((or_default None test_option \<noteq> None \<longrightarrow> '':validate'' \<in> set caps)
        \<and> or_default None error_option = Some ''rollback-on-error'' \<longrightarrow>
      (snd (EditConfig_request ds_or_url valid_ele caps config format target default_operation
              test_option error_option no_deploy reconcile rollback_label rollback_comment
              with_transaction_id with_inactive) = Some (UnsupportedCapability '':rollback-on-error'')
       \<longleftrightarrow> '':rollback-on-error'' \<notin> set caps))
   \<and> ((or_default None test_option \<noteq> None \<longrightarrow> '':validate'' \<in> set caps)
        \<and> or_default None error_option \<noteq> Some ''rollback-on-error'' \<longrightarrow>
      (\<forall>c. snd (EditConfig_request ds_or_url valid_ele caps config format target
                   default_operation test_option error_option no_deploy reconcile rollback_label
                   rollback_comment with_transaction_id with_inactive)
             \<noteq> Some (UnsupportedCapability c)))"
proof (intro impI conjI allI; (elim conjE)?)
  let ?r = "EditConfig_request ds_or_url valid_ele caps config format target default_operation
              test_option error_option no_deploy reconcile rollback_label rollback_comment
              with_transaction_id with_inactive"
  assume t: "ds_or_url ''target'' (Str (or_default ''candidate'' target)) (assert_capability caps) = Inr t"
    and p: "\<forall>c. valid_ele config [QName None ''config'', QName (Some BASE_NS_1_0) ''config'']
          \<noteq> Inl (UnsupportedCapability c)"
  {
    assume x: "or_default None test_option \<noteq> None"
    show "snd ?r = Some (UnsupportedCapability '':validate'') \<longleftrightarrow> '':validate'' \<notin> set caps"
    proof
      assume "'':validate'' \<notin> set caps"
      from EditConfig_validate_missing
        [where ds_or_url = ds_or_url and valid_ele = valid_ele, OF t x this]
      show "snd ?r = Some (UnsupportedCapability '':validate'')" by simp
    next
      assume raised: "snd ?r = Some (UnsupportedCapability '':validate'')"
      show "'':validate'' \<notin> set caps"
      proof
        assume v: "'':validate'' \<in> set caps"
        show False
        proof (cases "or_default None error_option = Some ''rollback-on-error''
                       \<and> '':rollback-on-error'' \<notin> set caps")
          case True
          from EditConfig_rollback_missing
            [where ds_or_url = ds_or_url and valid_ele = valid_ele, OF t _ conjunct1 [OF True]
               conjunct2 [OF True]] v raised
          show False by simp
        next
          case False
          then have "or_default None error_option = Some ''rollback-on-error'' \<longrightarrow>
              '':rollback-on-error'' \<in> set caps" by blast
          from EditConfig_no_capability_error
            [where ds_or_url = ds_or_url and valid_ele = valid_ele, OF t _ this p] v raised
          show False by blast
        qed
      qed
    qed
  }
  {
    assume v: "or_default None test_option \<noteq> None \<longrightarrow> '':validate'' \<in> set caps"
      and e: "or_default None error_option = Some ''rollback-on-error''"
    show "snd ?r = Some (UnsupportedCapability '':rollback-on-error'')
            \<longleftrightarrow> '':rollback-on-error'' \<notin> set caps"
    proof
      assume "'':rollback-on-error'' \<notin> set caps"
      from EditConfig_rollback_missing
        [where ds_or_url = ds_or_url and valid_ele = valid_ele, OF t v e this]
      show "snd ?r = Some (UnsupportedCapability '':rollback-on-error'')" by simp
    next
      assume raised: "snd ?r = Some (UnsupportedCapability '':rollback-on-error'')"
      show "'':rollback-on-error'' \<notin> set caps"
      proof
        assume "'':rollback-on-error'' \<in> set caps"
        then have "or_default None error_option = Some ''rollback-on-error'' \<longrightarrow>
              '':rollback-on-error'' \<in> set caps" by blast
        from EditConfig_no_capability_error
          [where ds_or_url = ds_or_url and valid_ele = valid_ele, OF t v this p] raised
        show False by blast
      qed
    qed
  }
  {
    fix c
    assume v: "or_default None test_option \<noteq> None \<longrightarrow> '':validate'' \<in> set caps"
      and e: "or_default None error_option \<noteq> Some ''rollback-on-error''"
    then have "or_default None error_option = Some ''rollback-on-error'' \<longrightarrow>
              '':rollback-on-error'' \<in> set caps" by blast
    from EditConfig_no_capability_error
      [where ds_or_url = ds_or_url and valid_ele = valid_ele, OF t v this p]
    show "snd ?r \<noteq> Some (UnsupportedCapability c)" by blast
  }
qed

theorem EditConfig_capability_checks_witness:
  "snd (EditConfig_request datastore_or_url (validated_element no_parser) []
          (Ele (Element (QName None ''config'') None [])) Omitted Omitted Omitted
          (Given (Some ''set'')) Omitted Omitted Omitted Omitted Omitted Omitted Omitted)
     = Some (UnsupportedCapability '':validate'')
   \<and> snd (EditConfig_request datastore_or_url (validated_element no_parser) ['':validate'']
          (Ele (Element (QName None ''config'') None [])) Omitted Omitted Omitted
          (Given (Some ''set'')) (Given (Some ''rollback-on-error''))
          Omitted Omitted Omitted Omitted Omitted Omitted)
     = Some (UnsupportedCapability '':rollback-on-error'')
   \<and> snd (EditConfig_request datastore_or_url (validated_element no_parser) ['':validate'']
          (Ele (Element (QName None ''config'') None [])) Omitted Omitted Omitted
          (Given (Some ''set'')) (Given (Some ''stop-on-error''))
          Omitted Omitted Omitted Omitted Omitted Omitted)
     \<noteq> Some (UnsupportedCapability '':rollback-on-error'')"
  apply (intro conjI)
  subgoal
    using EditConfig_capability_checks
      [where ds_or_url = datastore_or_url and valid_ele = "validated_element no_parser"
         and caps = "[]" and config = "Ele (Element (QName None ''config'') None [])"
         and format = Omitted and target = Omitted and default_operation = Omitted
         and test_option = "Given (Some ''set'')" and error_option = Omitted
         and no_deploy = Omitted and reconcile = Omitted and rollback_label = Omitted
         and rollback_comment = Omitted and with_transaction_id = Omitted
         and with_inactive = Omitted
         and t = "Element (QName (Some BASE_NS_1_0) ''target'') None
                    [Element (QName (Some BASE_NS_1_0) ''candidate'') None []]"]
    by (simp add: datastore_or_url_def validated_element_def markup_defs)
  subgoal
    using EditConfig_capability_checks
      [where ds_or_url = datastore_or_url and valid_ele = "validated_element no_parser"
         and caps = "['':validate'']" and config = "Ele (Element (QName None ''config'') None [])"
         and format = Omitted and target = Omitted and default_operation = Omitted
         and test_option = "Given (Some ''set'')"
         and error_option = "Given (Some ''rollback-on-error'')"
         and no_deploy = Omitted and reconcile = Omitted and rollback_label = Omitted
         and rollback_comment = Omitted and with_transaction_id = Omitted
         and with_inactive = Omitted
         and t = "Element (QName (Some BASE_NS_1_0) ''target'') None
                    [Element (QName (Some BASE_NS_1_0) ''candidate'') None []]"]
    by (simp add: datastore_or_url_def validated_element_def markup_defs)
  subgoal
    using EditConfig_capability_checks
      [where ds_or_url = datastore_or_url and valid_ele = "validated_element no_parser"
         and caps = "['':validate'']" and config = "Ele (Element (QName None ''config'') None [])"
         and format = Omitted and target = Omitted and default_operation = Omitted
         and test_option = "Given (Some ''set'')"
         and error_option = "Given (Some ''stop-on-error'')"
         and no_deploy = Omitted and reconcile = Omitted and rollback_label = Omitted
         and rollback_comment = Omitted and with_transaction_id = Omitted
         and with_inactive = Omitted
         and t = "Element (QName (Some BASE_NS_1_0) ''target'') None
                    [Element (QName (Some BASE_NS_1_0) ''candidate'') None []]"]
    by (simp add: datastore_or_url_def validated_element_def markup_defs)
  done

text \<open>
  C7 does not hold of the code. The docstring of \<open>EditConfig.request\<close> says that
  \<open>default_operation\<close> "if specified must be one of" merge, replace and none, but the
  check is missing (the code carries the comment "TODO: check if it is a valid
  default-operation"): every value \<open>d\<close>, in the set or not, is written into the
  \<open>default-operation\<close> element and the request is handed over.
\<close>

theorem EditConfig_default_operation_unchecked:
  "EditConfig_request datastore_or_url (validated_element no_parser) caps
       (Ele (Element (QName None ''config'') None [])) Omitted Omitted (Given (Some d))
       Omitted Omitted Omitted Omitted Omitted Omitted Omitted Omitted =
     (Element (QName (Some BASE_NS_1_0) ''edit-config'') None
        [Element (QName (Some BASE_NS_1_0) ''target'') None
           [Element (QName (Some BASE_NS_1_0) ''candidate'') None []],
         Element (QName (Some BASE_NS_1_0) ''default-operation'') (Some d) [],
         Element (QName (Some BASE_NS_1_0) ''config'') None []],
      None)"
  by (simp add: EditConfig_request_def datastore_or_url_def validated_element_def try_append_def
      add_service_commit_params_def add_rollback_meta_data_def add_with_transaction_id_def
      add_with_inactive_def markup_defs Let_def)

subsection \<open>CopyConfig\<close>

lemma CopyConfig_builds:
  "ds_or_url ''target'' target (assert_capability caps) = Inr t \<Longrightarrow>
   ds_or_url ''source'' source (assert_capability caps) = Inr s
   \<or> (\<exists>e. ds_or_url ''source'' source (assert_capability caps) = Inl e)
      \<and> valid_ele source [QName None ''source'', QName (Some BASE_NS_1_0) ''source''] = Inr s \<Longrightarrow>
   (\<forall>r. or_default None reconcile = Some r \<longrightarrow>
        r \<in> {''keep-non-service-config'', ''discard-non-service-config''}) \<Longrightarrow>
   CopyConfig_request ds_or_url valid_ele caps source target no_deploy reconcile
       with_transaction_id with_inactive =
     (Element (QName (Some BASE_NS_1_0) ''copy-config'') None
        ([t, s]
         @ marker_if (or_default False no_deploy) TAILF_NS_NCS ''no-deploy''
         @ (case or_default None reconcile of
              None \<Rightarrow> []
            | Some r \<Rightarrow> [Element (QName (Some TAILF_NS_NCS) ''reconcile'') None
                          [marker TAILF_NS_NCS r]])
         @ marker_if (or_default False with_transaction_id) TAILF_NS_WTI ''with-transaction-id''
         @ marker_if (or_default False with_inactive) TAILF_NS_INACTIVE ''with-inactive''),
      None)"
  by (elim disjE conjE exE)
     (simp_all add: CopyConfig_request_def try_append_def Let_def new_ele_def new_ele_ns_def
        qualify_def add_service_commit_params_valid add_with_transaction_id_children
        add_with_inactive_children)

text \<open>
  C8. \<open>CopyConfig\<close> first asks \<open>datastore_or_url\<close> to read the source as a
  datastore name or URL. When that returns an element, the element is appended after
  the target and \<open>validated_element\<close> is not consulted: the outcome is the same
  whatever \<open>validated_element\<close> would do. When it raises, whatever the exception, the
  source is validated as an element rooted at \<open>source\<close> and that element is appended
  instead; and when this validation raises too, its exception leaves the builder, with
  only the target appended. (Stated for a target that encodes and a valid
  \<open>reconcile\<close>, so that the steps around the source do not raise.)
\<close>

theorem CopyConfig_source_fallback:
  "ds_or_url ''target'' target (assert_capability caps) = Inr t
   \<and> (\<forall>r. or_default None reconcile = Some r \<longrightarrow>
          r \<in> {''keep-non-service-config'', ''discard-non-service-config''}) \<longrightarrow>
   (ds_or_url ''source'' source (assert_capability caps) = Inr s \<longrightarrow>
      CopyConfig_request ds_or_url valid_ele caps source target no_deploy reconcile
          with_transaction_id with_inactive =
        (Element (QName (Some BASE_NS_1_0) ''copy-config'') None
           ([t, s]
            @ marker_if (or_default False no_deploy) TAILF_NS_NCS ''no-deploy''
            @ (case or_default None reconcile of
                 None \<Rightarrow> []
               | Some r \<Rightarrow> [Element (QName (Some TAILF_NS_NCS) ''reconcile'') None
                             [marker TAILF_NS_NCS r]])
            @ marker_if (or_default False with_transaction_id) TAILF_NS_WTI ''with-transaction-id''
            @ marker_if (or_default False with_inactive) TAILF_NS_INACTIVE ''with-inactive''),
         None)
      \<and> CopyConfig_request ds_or_url valid_ele caps source target no_deploy reconcile
          with_transaction_id with_inactive =
        CopyConfig_request ds_or_url valid_ele_b caps source target no_deploy reconcile
          with_transaction_id with_inactive)
   \<and> (ds_or_url ''source'' source (assert_capability caps) = Inl e
        \<and> valid_ele source [QName None ''source'', QName (Some BASE_NS_1_0) ''source''] = Inr s \<longrightarrow>
      CopyConfig_request ds_or_url valid_ele caps source target no_deploy reconcile
          with_transaction_id with_inactive =
        (Element (QName (Some BASE_NS_1_0) ''copy-config'') None
           ([t, s]
            @ marker_if (or_default False no_deploy) TAILF_NS_NCS ''no-deploy''
            @ (case or_default None reconcile of
                 None \<Rightarrow> []
               | Some r \<Rightarrow> [Element (QName (Some TAILF_NS_NCS) ''reconcile'') None
                             [marker TAILF_NS_NCS r]])
            @ marker_if (or_default False with_transaction_id) TAILF_NS_WTI ''with-transaction-id''
            @ marker_if (or_default False with_inactive) TAILF_NS_INACTIVE ''with-inactive''),
         None))
   \<and> (ds_or_url ''source'' source (assert_capability caps) = Inl e
        \<and> valid_ele source [QName None ''source'', QName (Some BASE_NS_1_0) ''source''] = Inl e_v \<longrightarrow>
      CopyConfig_request ds_or_url valid_ele caps source target no_deploy reconcile
          with_transaction_id with_inactive =
        (Element (QName (Some BASE_NS_1_0) ''copy-config'') None [t], Some e_v))"
proof (intro impI conjI; (elim conjE)?)
  assume t: "ds_or_url ''target'' target (assert_capability caps) = Inr t"
    and r: "\<forall>r. or_default None reconcile = Some r \<longrightarrow>
          r \<in> {''keep-non-service-config'', ''discard-non-service-config''}"
  {
    assume s: "ds_or_url ''source'' source (assert_capability caps) = Inr s"
    from t s r
    show "CopyConfig_request ds_or_url valid_ele caps source target no_deploy reconcile
          with_transaction_id with_inactive =
        (Element (QName (Some BASE_NS_1_0) ''copy-config'') None
           ([t, s]
            @ marker_if (or_default False no_deploy) TAILF_NS_NCS ''no-deploy''
            @ (case or_default None reconcile of
                 None \<Rightarrow> []
               | Some r \<Rightarrow> [Element (QName (Some TAILF_NS_NCS) ''reconcile'') None
                             [marker TAILF_NS_NCS r]])
            @ marker_if (or_default False with_transaction_id) TAILF_NS_WTI ''with-transaction-id''
            @ marker_if (or_default False with_inactive) TAILF_NS_INACTIVE ''with-inactive''),
         None)"
      by (simp add: CopyConfig_builds [where ds_or_url = ds_or_url and valid_ele = valid_ele])
    from s
    show "CopyConfig_request ds_or_url valid_ele caps source target no_deploy reconcile
          with_transaction_id with_inactive =
        CopyConfig_request ds_or_url valid_ele_b caps source target no_deploy reconcile
          with_transaction_id with_inactive"
      by (simp add: CopyConfig_request_def Let_def)
  }
  {
    assume s: "ds_or_url ''source'' source (assert_capability caps) = Inl e"
      and f: "valid_ele source [QName None ''source'', QName (Some BASE_NS_1_0) ''source''] = Inr s"
    from t s f r
    show "CopyConfig_request ds_or_url valid_ele caps source target no_deploy reconcile
          with_transaction_id with_inactive =
        (Element (QName (Some BASE_NS_1_0) ''copy-config'') None
           ([t, s]
            @ marker_if (or_default False no_deploy) TAILF_NS_NCS ''no-deploy''
            @ (case or_default None reconcile of
                 None \<Rightarrow> []
               | Some r \<Rightarrow> [Element (QName (Some TAILF_NS_NCS) ''reconcile'') None
                             [marker TAILF_NS_NCS r]])
            @ marker_if (or_default False with_transaction_id) TAILF_NS_WTI ''with-transaction-id''
            @ marker_if (or_default False with_inactive) TAILF_NS_INACTIVE ''with-inactive''),
         None)"
      by (simp add: CopyConfig_builds [where ds_or_url = ds_or_url and valid_ele = valid_ele])
  }
  {
    assume s: "ds_or_url ''source'' source (assert_capability caps) = Inl e"
      and f: "valid_ele source [QName None ''source'', QName (Some BASE_NS_1_0) ''source''] = Inl e_v"
    from CopyConfig_source_fails [where ds_or_url = ds_or_url and valid_ele = valid_ele, OF t s f]
    show "CopyConfig_request ds_or_url valid_ele caps source target no_deploy reconcile
          with_transaction_id with_inactive =
        (Element (QName (Some BASE_NS_1_0) ''copy-config'') None [t], Some e_v)" .
  }
qed

theorem CopyConfig_source_fallback_witness:
  "CopyConfig_request datastore_or_url (validated_element no_parser) [] (Str ''running'')
       (Str ''candidate'') Omitted Omitted Omitted Omitted =
     (Element (QName (Some BASE_NS_1_0) ''copy-config'') None
        [Element (QName (Some BASE_NS_1_0) ''target'') None
           [Element (QName (Some BASE_NS_1_0) ''candidate'') None []],
         Element (QName (Some BASE_NS_1_0) ''source'') None
           [Element (QName (Some BASE_NS_1_0) ''running'') None []]],
      None)
   \<and> CopyConfig_request datastore_or_url (validated_element no_parser) []
       (Ele (Element (QName None ''source'') None
               [Element (QName (Some BASE_NS_1_0) ''config'') None []]))
       (Str ''candidate'') Omitted Omitted Omitted Omitted =
     (Element (QName (Some BASE_NS_1_0) ''copy-config'') None
        [Element (QName (Some BASE_NS_1_0) ''target'') None
           [Element (QName (Some BASE_NS_1_0) ''candidate'') None []],
         Element (QName None ''source'') None
           [Element (QName (Some BASE_NS_1_0) ''config'') None []]],
      None)
   \<and> CopyConfig_request datastore_or_url (validated_element no_parser) []
       (Ele (Element (QName None ''data'') None [])) (Str ''candidate'')
       Omitted Omitted Omitted Omitted =
     (Element (QName (Some BASE_NS_1_0) ''copy-config'') None
        [Element (QName (Some BASE_NS_1_0) ''target'') None
           [Element (QName (Some BASE_NS_1_0) ''candidate'') None []]],
      Some (MalformedPayload ''Element does not meet requirement''))"
  apply (intro conjI)
  subgoal
    using CopyConfig_source_fallback
      [where ds_or_url = datastore_or_url and valid_ele = "validated_element no_parser"
         and valid_ele_b = "validated_element no_parser"
         and caps = "[]" and source = "Str ''running''" and target = "Str ''candidate''"
         and no_deploy = Omitted and reconcile = Omitted and with_transaction_id = Omitted
         and with_inactive = Omitted
         and t = "Element (QName (Some BASE_NS_1_0) ''target'') None
                    [Element (QName (Some BASE_NS_1_0) ''candidate'') None []]"
         and s = "Element (QName (Some BASE_NS_1_0) ''source'') None
                    [Element (QName (Some BASE_NS_1_0) ''running'') None []]"
         and e = "TypeError ''datastore name expected''"
         and e_v = "MalformedPayload ''Element does not meet requirement''"]
    by (simp add: datastore_or_url_def validated_element_def markup_defs)
  subgoal
    using CopyConfig_source_fallback
      [where ds_or_url = datastore_or_url and valid_ele = "validated_element no_parser"
         and valid_ele_b = "validated_element no_parser"
         and caps = "[]"
         and source = "Ele (Element (QName None ''source'') None
               [Element (QName (Some BASE_NS_1_0) ''config'') None []])"
         and target = "Str ''candidate''"
         and no_deploy = Omitted and reconcile = Omitted and with_transaction_id = Omitted
         and with_inactive = Omitted
         and t = "Element (QName (Some BASE_NS_1_0) ''target'') None
                    [Element (QName (Some BASE_NS_1_0) ''candidate'') None []]"
         and s = "Element (QName None ''source'') None
               [Element (QName (Some BASE_NS_1_0) ''config'') None []]"
         and e = "TypeError ''datastore name expected''"
         and e_v = "MalformedPayload ''Element does not meet requirement''"]
    by (simp add: datastore_or_url_def validated_element_def markup_defs)
  subgoal
    using CopyConfig_source_fallback
      [where ds_or_url = datastore_or_url and valid_ele = "validated_element no_parser"
         and valid_ele_b = "validated_element no_parser"
         and caps = "[]"
         and source = "Ele (Element (QName None ''data'') None [])"
         and target = "Str ''candidate''"
         and no_deploy = Omitted and reconcile = Omitted and with_transaction_id = Omitted
         and with_inactive = Omitted
         and t = "Element (QName (Some BASE_NS_1_0) ''target'') None
                    [Element (QName (Some BASE_NS_1_0) ''candidate'') None []]"
         and s = "Element (QName None ''source'') None []"
         and e = "TypeError ''datastore name expected''"
         and e_v = "MalformedPayload ''Element does not meet requirement''"]
    by (simp add: datastore_or_url_def validated_element_def markup_defs)
  done

subsection \<open>The default of \<open>with_inactive\<close>\<close>


end
